theory Spec2Isabelle
  imports Main "HOL-Library.Word" "HOL-Library.Signed_Division"
begin

unbundle bit_operations_syntax

section \<open>Mason read simulator: alignment records, MD strings, read ids, distribution\<close>

text \<open>
  A shallow embedding of \<^verbatim>\<open>extras/apps/mason2/mason_simulator.cpp\<close>: the two record
  builders, the read-id formatting of the simulator thread, the distribution loop of the
  application and \<^verbatim>\<open>getMDString2\<close>.

  Conventions.
  \<^item> A C++ \<^verbatim>\<open>int\<close> is an \<open>int\<close> whose arithmetic results are wrapped to 32 bits by
    \<open>int32\<close> (two's complement), an \<^verbatim>\<open>unsigned\<close> is an \<open>int\<close> taken modulo \<open>2 ^ 32\<close>.
  \<^item> Reference parameters and reference members become explicit state: a method takes the
    builder and the record and returns both.
  \<^item> A leading underscore of a method name is dropped, and the methods of the two builder
    classes carry the prefix \<open>SE_\<close> (SingleEndRecordBuilder) or \<open>PE_\<close>
    (PairedEndRecordBuilder).
  \<^item> What the file uses from headers other than this source file (the
    position map, the alignment routine, the sentinel values of the BAM record) is a
    parameter of the model or is modelled from the specification, and is marked so.
\<close>

subsection \<open>Machine integers and decimal output\<close>

definition int32 :: "int \<Rightarrow> int" where
  "int32 x = (x + 2147483648) mod 4294967296 - 2147483648"

definition digit_char :: "nat \<Rightarrow> char" where
  "digit_char d =
     (if d = 0 then CHR ''0'' else if d = 1 then CHR ''1'' else if d = 2 then CHR ''2''
      else if d = 3 then CHR ''3'' else if d = 4 then CHR ''4'' else if d = 5 then CHR ''5''
      else if d = 6 then CHR ''6'' else if d = 7 then CHR ''7'' else if d = 8 then CHR ''8''
      else CHR ''9'')"

text \<open>\<^verbatim>\<open>stream << n\<close> for an unsigned value: its decimal digits.\<close>

fun show_unsigned :: "nat \<Rightarrow> string" where
  "show_unsigned n =
     (if n < 10 then [digit_char n] else show_unsigned (n div 10) @ [digit_char (n mod 10)])"

declare show_unsigned.simps [simp del]

text \<open>\<^verbatim>\<open>stream << i\<close> for an \<^verbatim>\<open>int\<close>: a minus sign for a negative value, then the digits.\<close>

definition show_int :: "int \<Rightarrow> string" where
  "show_int i = (if i < 0 then CHR ''-'' # show_unsigned (nat (- i)) else show_unsigned (nat i))"

subsection \<open>Sequences\<close>

datatype Dna5 = Dna5_A | Dna5_C | Dna5_G | Dna5_T | Dna5_N

type_synonym Dna5String = "Dna5 list"
type_synonym CharString = string

fun Dna5_to_char :: "Dna5 \<Rightarrow> char" where
  "Dna5_to_char Dna5_A = CHR ''A''"
| "Dna5_to_char Dna5_C = CHR ''C''"
| "Dna5_to_char Dna5_G = CHR ''G''"
| "Dna5_to_char Dna5_T = CHR ''T''"
| "Dna5_to_char Dna5_N = CHR ''N''"

text \<open>
  A \<^verbatim>\<open>Gaps\<close> object is read through its iterator only: the row of the alignment, position
  by position, \<open>None\<close> where \<^verbatim>\<open>isGap\<close> holds and \<open>Some x\<close> where the iterator dereferences
  to the character \<open>x\<close>.
\<close>

type_synonym Gaps = "Dna5 option list"

subsection \<open>getMDString2\<close>

text \<open>
  The operation of one column whose reference position is not a gap: \<open>D\<close> when the read
  has a gap, \<open>M\<close> when the two characters are equal, \<open>R\<close> otherwise.
\<close>

definition md_op :: "Dna5 \<Rightarrow> Dna5 option \<Rightarrow> char" where
  "md_op x1 g2 =
     (case g2 of None \<Rightarrow> CHR ''D''
      | Some x2 \<Rightarrow> (if x1 = x2 then CHR ''M'' else CHR ''R''))"

text \<open>
  The loop body below the \<^verbatim>\<open>continue\<close>, on the state \<open>(md, lastOp, numOps)\<close>; the
  \<^verbatim>\<open>unsigned\<close> counter \<open>numOps\<close> is an integer kept in \<open>[0, 2 ^ 32)\<close>. The
  statements keep the order of the source: the block that appends the match run assigns
  \<open>lastOp\<close> before the block that appends the reference character reads it.
\<close>

definition getMDString2_body :: "string \<times> char \<times> int \<Rightarrow> Dna5 \<Rightarrow> Dna5 option \<Rightarrow> string \<times> char \<times> int" where
  "getMDString2_body st x1 g2 =
     (case st of (md, lastOp, numOps) \<Rightarrow>
        let op = md_op x1 g2;
            md1 = (if lastOp \<noteq> op \<and> lastOp = CHR ''M'' then md @ show_unsigned (nat numOps) else md);
            numOps1 = (if lastOp \<noteq> op then 0 else numOps);
            lastOp1 = (if lastOp \<noteq> op then op else lastOp);
            md2 = (if op \<noteq> CHR ''M'' then
                     (let mdA = (if op = CHR ''D'' \<and> lastOp1 \<noteq> CHR ''D''
                                 then md1 @ [CHR ''^''] else md1);
                          mdB = (if op = CHR ''R'' \<and> lastOp1 = CHR ''D''
                                 then mdA @ [CHR ''0''] else mdA)
                      in mdB @ [Dna5_to_char x1])
                   else md1)
        in (md2, lastOp1, (numOps1 + 1) mod 4294967296))"

text \<open>
  The \<^verbatim>\<open>for\<close> loop: both iterators advance together and the loop ends when either is at
  its end; a column gapped on the reference is skipped.
\<close>

fun getMDString2_loop :: "string \<times> char \<times> int \<Rightarrow> Gaps \<Rightarrow> Gaps \<Rightarrow> string \<times> char \<times> int" where
  "getMDString2_loop st (g1 # gaps1) (g2 # gaps2) =
     (case g1 of
        None \<Rightarrow> getMDString2_loop st gaps1 gaps2
      | Some x1 \<Rightarrow> getMDString2_loop (getMDString2_body st x1 g2) gaps1 gaps2)"
| "getMDString2_loop st _ _ = st"

definition getMDString2 :: "Gaps \<Rightarrow> Gaps \<Rightarrow> string" where
  "getMDString2 gaps1 gaps2 =
     (case getMDString2_loop ([], CHR '' '', 0) gaps1 gaps2 of
        (md, lastOp, numOps) \<Rightarrow>
          (if lastOp = CHR ''M'' then md @ show_unsigned (nat numOps) else md))"

text \<open>
  \<^verbatim>\<open>SEQAN_ASSERT_EQ(atEnd(it1), atEnd(it2))\<close> after the loop is a debug assertion (it
  expands to nothing unless \<^verbatim>\<open>SEQAN_ENABLE_DEBUG\<close> is set) and the model is the release
  build. The loop leaves both iterators at their ends exactly when the two rows have the
  same length, which is the condition the assertion checks.
\<close>

definition getMDString2_assertion :: "Gaps \<Rightarrow> Gaps \<Rightarrow> bool" where
  "getMDString2_assertion gaps1 gaps2 = (length gaps1 = length gaps2)"

subsection \<open>Records, position map and the SeqAn interface\<close>

datatype CigarElement = CigarElement (operation: char) (count: nat)

text \<open>\<^verbatim>\<open>SequencingSimulationInfo\<close>: the fields this file reads and writes.\<close>

record SequencingSimulationInfo =
  info_rID :: int
  info_hID :: int
  info_beginPos :: int
  info_isForward :: bool
  info_cigar :: "CigarElement list"

datatype Kind = NORMAL | INSERTED

text \<open>\<^verbatim>\<open>GenomicInterval\<close>: of its fields the builders read \<^verbatim>\<open>kind\<close> only.\<close>

record GenomicInterval =
  kind :: Kind

text \<open>
  \<^verbatim>\<open>PositionMap\<close> is declared in another header of the application. The builders
  call four of its const methods; the map is a parameter of the model, given by these four
  functions.
\<close>

record PositionMap =
  overlapsWithBreakpoint :: "int \<Rightarrow> int \<Rightarrow> bool"
  getGenomicInterval :: "int \<Rightarrow> GenomicInterval"
  toSmallVarInterval :: "int \<Rightarrow> int \<Rightarrow> int \<times> int"
  toOriginalInterval :: "int \<Rightarrow> int \<Rightarrow> int \<times> int"

datatype TagValue = TagChar char | TagInt int | TagString string

text \<open>
  \<^verbatim>\<open>seqan::BamAlignmentRecord\<close>, the fields the builders and the simulator thread
  assign. The record's \<^verbatim>\<open>seq\<close> keeps the alphabet of the read (the assignment
  \<^verbatim>\<open>record.seq = seq\<close> converts the representation, not the letters), and \<^verbatim>\<open>tags\<close>
  is the dictionary that \<^verbatim>\<open>BamTagsDict\<close> presents: keys with typed values, in the order
  of insertion.
\<close>

record BamAlignmentRecord =
  qName :: CharString
  flag :: "16 word"
  rID :: int
  beginPos :: int
  cigar :: "CigarElement list"
  rNextId :: int
  pNext :: int
  tLen :: int
  seq :: Dna5String
  qual :: CharString
  tags :: "(string \<times> TagValue) list"

text \<open>
  Modelled from the spec: the flag bits \<^verbatim>\<open>seqan::BAM_FLAG_*\<close>, whose enumeration is
  declared in SeqAn's BAM module, outside this source file. The specification names the
  flags (MULTIPLE, ALL_PROPER, UNMAPPED, NEXT_UNMAPPED, RC, NEXT_RC, FIRST, LAST) as those of
  a SAM-compatible record; the values are the bits the SAM format assigns to them.
\<close>

definition BAM_FLAG_MULTIPLE :: "16 word" where "BAM_FLAG_MULTIPLE = 0x1"
definition BAM_FLAG_ALL_PROPER :: "16 word" where "BAM_FLAG_ALL_PROPER = 0x2"
definition BAM_FLAG_UNMAPPED :: "16 word" where "BAM_FLAG_UNMAPPED = 0x4"
definition BAM_FLAG_NEXT_UNMAPPED :: "16 word" where "BAM_FLAG_NEXT_UNMAPPED = 0x8"
definition BAM_FLAG_RC :: "16 word" where "BAM_FLAG_RC = 0x10"
definition BAM_FLAG_NEXT_RC :: "16 word" where "BAM_FLAG_NEXT_RC = 0x20"
definition BAM_FLAG_FIRST :: "16 word" where "BAM_FLAG_FIRST = 0x40"
definition BAM_FLAG_LAST :: "16 word" where "BAM_FLAG_LAST = 0x80"

text \<open>
  Modelled from the spec: \<^verbatim>\<open>hasFlagRC\<close> of SeqAn, outside this source file ("each mate's RC
  flag"): whether the bit is set in the record's flag; \<open>hasFlag\<close> is the same test for any
  flag.
\<close>

definition hasFlag :: "16 word \<Rightarrow> BamAlignmentRecord \<Rightarrow> bool" where
  "hasFlag f record = (flag record AND f = f)"

definition hasFlagRC :: "BamAlignmentRecord \<Rightarrow> bool" where
  "hasFlagRC record = hasFlag BAM_FLAG_RC record"

text \<open>
  Modelled from the spec: \<^verbatim>\<open>seqan::Score<int, seqan::Simple>\<close>, declared in SeqAn, outside
  this source file: a scoring scheme with the scores for a match, a mismatch, opening a gap
  and extending a gap. The call \<^verbatim>\<open>Score(0, -1000, -1001, -1002)\<close> of the source is, in the
  specification's words, "scoring \<open>match=0, mismatch=-1000, gap_open=-1001,
  gap_extend=-1002\<close>": the constructor takes the four scores in this order.
\<close>

record Score =
  scoreMatch :: int
  scoreMismatch :: int
  scoreGapOpen :: int
  scoreGapExtend :: int

definition SimpleScore :: "int \<Rightarrow> int \<Rightarrow> int \<Rightarrow> int \<Rightarrow> Score" where
  "SimpleScore m mm go ge =
     \<lparr>scoreMatch = m, scoreMismatch = mm, scoreGapOpen = go, scoreGapExtend = ge\<rparr>"

text \<open>
  What the builders use of the SeqAn library, outside this source file: the
  three sentinel values of \<^verbatim>\<open>BamAlignmentRecord\<close>, \<^verbatim>\<open>globalAlignment\<close> (from the two
  ungapped sequences, the scoring scheme and the lower and upper diagonal to the score and
  the two rows it leaves in the \<^verbatim>\<open>Gaps\<close> objects) and \<^verbatim>\<open>getCigarString\<close> (from the two
  rows and the split threshold to the CIGAR). They are parameters of the model.
\<close>

record SeqAn =
  INVALID_REFID :: int
  INVALID_POS :: int
  INVALID_LEN :: int
  globalAlignment :: "Dna5String \<Rightarrow> Dna5String \<Rightarrow> Score \<Rightarrow> int \<Rightarrow> int \<Rightarrow> int \<times> Gaps \<times> Gaps"
  getCigarString :: "Gaps \<Rightarrow> Gaps \<Rightarrow> int \<Rightarrow> CigarElement list"

text \<open>
  Modelled from the spec: \<^verbatim>\<open>clear(record)\<close> of SeqAn ("Reset record"): every string is
  emptied and every number takes its default, the sentinel where there is one.
\<close>

definition clear_record :: "SeqAn \<Rightarrow> BamAlignmentRecord \<Rightarrow> BamAlignmentRecord" where
  "clear_record L record =
     record\<lparr>qName := [], flag := 0, rID := INVALID_REFID L, beginPos := INVALID_POS L,
            cigar := [], rNextId := INVALID_REFID L, pNext := INVALID_POS L,
            tLen := INVALID_LEN L, seq := [], qual := [], tags := []\<rparr>"

text \<open>
  Modelled from the spec: \<^verbatim>\<open>setTagValue\<close> of SeqAn's \<^verbatim>\<open>BamTagsDict\<close> ("emit the tag"):
  the value of a key that is present is replaced, a new key is appended.
\<close>

fun setTagValue :: "(string \<times> TagValue) list \<Rightarrow> string \<Rightarrow> TagValue \<Rightarrow> (string \<times> TagValue) list" where
  "setTagValue [] k v = [(k, v)]"
| "setTagValue ((k', v') # ts) k v =
     (if k' = k then (k, v) # ts else (k', v') # setTagValue ts k v)"

text \<open>
  Modelled from the spec: \<^verbatim>\<open>_getLengthInRef\<close>, declared in another header of the
  application: "the number of reference positions consumed by \<^verbatim>\<open>info.cigar\<close> (sum of
  \<open>M\<close> and \<open>D\<close>)".
\<close>

definition getLengthInRef :: "CigarElement list \<Rightarrow> int" where
  "getLengthInRef cig =
     int32 (sum_list (map (\<lambda>e. if operation e = CHR ''M'' then int (count e)
                                 else if operation e = CHR ''D'' then int (count e) else 0) cig))"

text \<open>
  Modelled from the spec: \<^verbatim>\<open>reverseComplement\<close> of SeqAn ("reverse-complement the read
  sequence"): the sequence is reversed and each letter replaced by its complement.
\<close>

fun complement :: "Dna5 \<Rightarrow> Dna5" where
  "complement Dna5_A = Dna5_T"
| "complement Dna5_C = Dna5_G"
| "complement Dna5_G = Dna5_C"
| "complement Dna5_T = Dna5_A"
| "complement Dna5_N = Dna5_N"

definition reverseComplement :: "Dna5String \<Rightarrow> Dna5String" where
  "reverseComplement s = rev (map complement s)"

text \<open>
  Modelled from the spec: the segment type of SeqAn (the reference interval
  \<open>[orig_a, orig_b)\<close>) that \<^verbatim>\<open>_alignAndSetCigar\<close> constructs from \<^verbatim>\<open>refSeq\<close>,
  \<^verbatim>\<open>beginPos\<close> and \<^verbatim>\<open>endPos\<close>: the characters at positions \<open>beginPos\<close> up to
  \<open>endPos\<close>, for \<open>0 \<le> beginPos \<le> endPos \<le> length refSeq\<close>; the source has no
  defined behaviour for other positions.
\<close>

definition infix_seq :: "Dna5String \<Rightarrow> int \<Rightarrow> int \<Rightarrow> Dna5String" where
  "infix_seq s b e = take (nat (e - b)) (drop (nat b) s)"

subsection \<open>Realignment, shared by the two builders\<close>

text \<open>
  The two statements of \<^verbatim>\<open>_alignAndSetCigar\<close> that compute \<^verbatim>\<open>uDiag\<close> and
  \<^verbatim>\<open>lDiag\<close>, as the pair \<open>(lDiag, uDiag)\<close>. The lengths are \<^verbatim>\<open>size_t\<close>; their
  difference is cast to \<^verbatim>\<open>int\<close>.
\<close>

definition alignmentBand :: "Dna5String \<Rightarrow> Dna5String \<Rightarrow> int \<times> int" where
  "alignmentBand contigInfix read_seq =
     (let buffer = 3;
          uDiag = int32 (max (int32 (int (length contigInfix) - int (length read_seq))) 0 + buffer);
          lDiag = int32 (int32 (- max (int32 (int (length read_seq) - int (length contigInfix))) 0) - buffer)
      in (lDiag, uDiag))"

text \<open>
  \<^verbatim>\<open>_alignAndSetCigar\<close>, the same text in both builder classes; of the class it reads
  \<^verbatim>\<open>refSeq\<close> only. Its parameters \<^verbatim>\<open>seq\<close>, \<^verbatim>\<open>beginPos\<close> and \<^verbatim>\<open>endPos\<close> are
  \<open>read_seq\<close>, \<open>begin_pos\<close> and \<open>end_pos\<close> here (the plain names are the fields of the
  record).

  Its first half, up to the call of \<^verbatim>\<open>globalAlignment\<close>: the segment of the reference,
  the scoring scheme, the band and the call, which returns the score and leaves the two
  rows.
\<close>

definition realignment :: "SeqAn \<Rightarrow> Dna5String \<Rightarrow> Dna5String \<Rightarrow> int \<Rightarrow> int \<Rightarrow> int \<times> Gaps \<times> Gaps" where
  "realignment L refSeq read_seq begin_pos end_pos =
     (let contigInfix = infix_seq refSeq begin_pos end_pos;
          sScheme = SimpleScore 0 (- 1000) (- 1001) (- 1002);
          (lDiag, uDiag) = alignmentBand contigInfix read_seq
      in globalAlignment L contigInfix read_seq sScheme lDiag uDiag)"

text \<open>
  The whole method: it returns the record, \<^verbatim>\<open>editDistance\<close> and \<^verbatim>\<open>mdString\<close>.
  \<^verbatim>\<open>/=\<close> on \<^verbatim>\<open>int\<close> truncates towards zero (\<open>sdiv\<close>).
\<close>

definition alignAndSetCigar ::
  "SeqAn \<Rightarrow> Dna5String \<Rightarrow> BamAlignmentRecord \<Rightarrow> Dna5String \<Rightarrow> int \<Rightarrow> int
     \<Rightarrow> BamAlignmentRecord \<times> int \<times> CharString" where
  "alignAndSetCigar L refSeq record read_seq begin_pos end_pos =
     (let (score, gapsContig, gapsRead) = realignment L refSeq read_seq begin_pos end_pos;
          editDistance = int32 (score sdiv (- 1000))
      in (record\<lparr>cigar := getCigarString L gapsContig gapsRead 2147483647\<rparr>,
          editDistance,
          getMDString2 gapsContig gapsRead))"

subsection \<open>SingleEndRecordBuilder\<close>

text \<open>
  The members of the class: \<^verbatim>\<open>info\<close>, \<^verbatim>\<open>seq\<close>, \<^verbatim>\<open>buffer\<close> and \<^verbatim>\<open>qual\<close> are
  references to the caller's objects, so the builder returned by a method is the caller's
  state after the call. (\<^verbatim>\<open>ss\<close> is not used by any method of the class.)
\<close>

record SingleEndRecordBuilder =
  se_info :: SequencingSimulationInfo
  se_seq :: Dna5String
  se_buffer :: CharString
  se_qual :: CharString
  se_posMap :: PositionMap
  se_refName :: CharString
  se_refSeq :: Dna5String
  se_rID :: int
  se_hID :: int
  se_fID :: int

definition SE_initialize ::
  "SeqAn \<Rightarrow> SingleEndRecordBuilder \<Rightarrow> BamAlignmentRecord \<Rightarrow> SingleEndRecordBuilder \<times> BamAlignmentRecord" where
  "SE_initialize L b record =
     (let record = clear_record L record;
          record = record\<lparr>flag := 0, rNextId := INVALID_REFID L, pNext := INVALID_POS L,
                          tLen := INVALID_LEN L\<rparr>;
          b = b\<lparr>se_info := (se_info b)\<lparr>info_rID := se_rID b, info_hID := se_hID b\<rparr>\<rparr>
      in (b, record))"

definition SE_fillUnaligned ::
  "SeqAn \<Rightarrow> SingleEndRecordBuilder \<Rightarrow> BamAlignmentRecord \<Rightarrow> bool \<Rightarrow> BamAlignmentRecord" where
  "SE_fillUnaligned L b record owb =
     (let record = record\<lparr>flag := BAM_FLAG_UNMAPPED, rID := INVALID_REFID L,
                          beginPos := INVALID_POS L, seq := se_seq b, qual := se_qual b\<rparr>;
          tagsDict = tags record;
          tagsDict = setTagValue tagsDict ''uR''
                       (TagChar (if owb then CHR ''B'' else CHR ''I''));
          tagsDict = setTagValue tagsDict ''oR'' (TagString (se_refName b));
          tagsDict = setTagValue tagsDict ''oP'' (TagInt (info_beginPos (se_info b)));
          tagsDict = setTagValue tagsDict ''oH'' (TagInt (int32 (se_hID b + 1)));
          tagsDict = setTagValue tagsDict ''oS''
                       (TagChar (if info_isForward (se_info b) then CHR ''F'' else CHR ''R''))
      in record\<lparr>tags := tagsDict\<rparr>)"

definition SE_flipState :: "SingleEndRecordBuilder \<Rightarrow> bool \<Rightarrow> SingleEndRecordBuilder" where
  "SE_flipState b doFlip =
     (if doFlip
      then b\<lparr>se_seq := reverseComplement (se_seq b),
             se_qual := rev (se_qual b),
             se_info := (se_info b)\<lparr>info_cigar := rev (info_cigar (se_info b))\<rparr>\<rparr>
      else b)"

definition SE_fillTags ::
  "SingleEndRecordBuilder \<Rightarrow> BamAlignmentRecord \<Rightarrow> int \<Rightarrow> CharString \<Rightarrow> BamAlignmentRecord" where
  "SE_fillTags b record editDistance mdString =
     (let tagsDict = tags record;
          tagsDict = setTagValue tagsDict ''NM'' (TagInt editDistance);
          tagsDict = setTagValue tagsDict ''MD'' (TagString mdString);
          tagsDict = setTagValue tagsDict ''oR'' (TagString (se_refName b));
          tagsDict = setTagValue tagsDict ''oH'' (TagInt (int32 (se_hID b + 1)));
          tagsDict = setTagValue tagsDict ''oP'' (TagInt (info_beginPos (se_info b)));
          tagsDict = setTagValue tagsDict ''oS''
                       (TagChar (if info_isForward (se_info b) then CHR ''F'' else CHR ''R''))
      in record\<lparr>tags := tagsDict\<rparr>)"

definition SE_fillAligned ::
  "SeqAn \<Rightarrow> SingleEndRecordBuilder \<Rightarrow> BamAlignmentRecord \<Rightarrow> int \<Rightarrow> SingleEndRecordBuilder \<times> BamAlignmentRecord" where
  "SE_fillAligned L b record len =
     (let intSmallVar = toSmallVarInterval (se_posMap b) (info_beginPos (se_info b))
                          (int32 (info_beginPos (se_info b) + len));
          isRC = (fst intSmallVar > snd intSmallVar);
          intSmallVar = (if isRC then (snd intSmallVar, fst intSmallVar) else intSmallVar);
          intOriginal = toOriginalInterval (se_posMap b) (fst intSmallVar) (snd intSmallVar);
          b = SE_flipState b (info_isForward (se_info b) = isRC);
          record = (if info_isForward (se_info b) = isRC
                    then record\<lparr>flag := flag record OR BAM_FLAG_RC\<rparr> else record);
          (record, editDistance, mdString) =
             alignAndSetCigar L (se_refSeq b) record (se_seq b) (fst intOriginal) (snd intOriginal);
          b = b\<lparr>se_buffer := mdString\<rparr>;
          record = record\<lparr>rID := se_rID b, beginPos := fst intOriginal,
                          seq := se_seq b, qual := se_qual b\<rparr>;
          b = SE_flipState b (info_isForward (se_info b) = isRC)
      in (b, SE_fillTags b record editDistance (se_buffer b)))"

text \<open>
  \<^verbatim>\<open>build\<close>; \<open>owb\<close> is the local \<^verbatim>\<open>overlapsWithBreakpoint\<close> (here and as the parameter
  of \<^verbatim>\<open>_fillUnaligned\<close>; the plain name is the method of the map). The genomic interval is looked up only when the alignment does not overlap
  a breakpoint, and \<^verbatim>\<open>||\<close> reads \<^verbatim>\<open>gi.kind\<close> only in that case.
\<close>

definition SE_build ::
  "SeqAn \<Rightarrow> SingleEndRecordBuilder \<Rightarrow> BamAlignmentRecord \<Rightarrow> SingleEndRecordBuilder \<times> BamAlignmentRecord" where
  "SE_build L b record =
     (let (b, record) = SE_initialize L b record;
          len = getLengthInRef (info_cigar (se_info b));
          owb = overlapsWithBreakpoint (se_posMap b) (info_beginPos (se_info b))
                  (int32 (info_beginPos (se_info b) + len))
      in if (if owb then True
             else kind (getGenomicInterval (se_posMap b) (info_beginPos (se_info b))) = INSERTED)
         then (b, SE_fillUnaligned L b record owb)
         else SE_fillAligned L b record len)"

subsection \<open>PairedEndRecordBuilder\<close>

record PairedEndRecordBuilder =
  pe_infoL :: SequencingSimulationInfo
  pe_infoR :: SequencingSimulationInfo
  pe_seqL :: Dna5String
  pe_seqR :: Dna5String
  pe_buffer :: CharString
  pe_qualL :: CharString
  pe_qualR :: CharString
  pe_posMap :: PositionMap
  pe_refName :: CharString
  pe_refSeq :: Dna5String
  pe_rID :: int
  pe_hID :: int
  pe_fID :: int

definition PE_initialize ::
  "SeqAn \<Rightarrow> PairedEndRecordBuilder \<Rightarrow> BamAlignmentRecord \<Rightarrow> BamAlignmentRecord
     \<Rightarrow> PairedEndRecordBuilder \<times> BamAlignmentRecord \<times> BamAlignmentRecord" where
  "PE_initialize L b recordL recordR =
     (let recordL = clear_record L recordL;
          recordR = clear_record L recordR;
          recordL = recordL\<lparr>flag := 0, rNextId := INVALID_REFID L, pNext := INVALID_POS L,
                            tLen := INVALID_LEN L\<rparr>;
          recordR = recordR\<lparr>flag := 0, rNextId := INVALID_REFID L, pNext := INVALID_POS L,
                            tLen := INVALID_LEN L\<rparr>;
          b = b\<lparr>pe_infoL := (pe_infoL b)\<lparr>info_rID := pe_rID b, info_hID := pe_hID b\<rparr>\<rparr>;
          b = b\<lparr>pe_infoR := (pe_infoR b)\<lparr>info_rID := pe_rID b, info_hID := pe_hID b\<rparr>\<rparr>
      in (b, recordL, recordR))"

text \<open>
  The methods below take the record, the info, the sequence and the quality string of one
  mate as reference parameters (\<open>infoRecord\<close>, \<open>read_seq\<close>, \<open>read_qual\<close>) and read the
  other members through the builder.
\<close>

definition PE_fillUnaligned ::
  "SeqAn \<Rightarrow> PairedEndRecordBuilder \<Rightarrow> BamAlignmentRecord \<Rightarrow> SequencingSimulationInfo
     \<Rightarrow> Dna5String \<Rightarrow> CharString \<Rightarrow> bool \<Rightarrow> BamAlignmentRecord" where
  "PE_fillUnaligned L b record infoRecord read_seq read_qual owb =
     (let record = record\<lparr>flag := BAM_FLAG_UNMAPPED, rID := INVALID_REFID L,
                          beginPos := INVALID_POS L, seq := read_seq, qual := read_qual\<rparr>;
          tagsDict = tags record;
          tagsDict = setTagValue tagsDict ''uR'' (TagChar (if owb then CHR ''B'' else CHR ''I''));
          tagsDict = setTagValue tagsDict ''oR'' (TagString (pe_refName b));
          tagsDict = setTagValue tagsDict ''oP'' (TagInt (info_beginPos infoRecord));
          tagsDict = setTagValue tagsDict ''oH'' (TagInt (int32 (pe_hID b + 1)));
          tagsDict = setTagValue tagsDict ''oS''
                       (TagChar (if info_isForward infoRecord then CHR ''F'' else CHR ''R''))
      in record\<lparr>tags := tagsDict\<rparr>)"

definition PE_flipState ::
  "SequencingSimulationInfo \<Rightarrow> Dna5String \<Rightarrow> CharString \<Rightarrow> bool
     \<Rightarrow> SequencingSimulationInfo \<times> Dna5String \<times> CharString" where
  "PE_flipState infoRecord read_seq read_qual doFlip =
     (if doFlip
      then (infoRecord\<lparr>info_cigar := rev (info_cigar infoRecord)\<rparr>,
            reverseComplement read_seq, rev read_qual)
      else (infoRecord, read_seq, read_qual))"

definition PE_fillTags ::
  "PairedEndRecordBuilder \<Rightarrow> BamAlignmentRecord \<Rightarrow> SequencingSimulationInfo \<Rightarrow> int \<Rightarrow> CharString
     \<Rightarrow> BamAlignmentRecord" where
  "PE_fillTags b record infoRecord editDistance mdString =
     (let tagsDict = tags record;
          tagsDict = setTagValue tagsDict ''NM'' (TagInt editDistance);
          tagsDict = setTagValue tagsDict ''MD'' (TagString mdString);
          tagsDict = setTagValue tagsDict ''oR'' (TagString (pe_refName b));
          tagsDict = setTagValue tagsDict ''oH'' (TagInt (int32 (pe_hID b + 1)));
          tagsDict = setTagValue tagsDict ''oP'' (TagInt (info_beginPos infoRecord));
          tagsDict = setTagValue tagsDict ''oS''
                       (TagChar (if info_isForward infoRecord then CHR ''F'' else CHR ''R''))
      in record\<lparr>tags := tagsDict\<rparr>)"

text \<open>
  \<^verbatim>\<open>_fillAligned\<close> returns the builder (its \<^verbatim>\<open>buffer\<close> is written), the record and the
  three reference parameters.
\<close>

definition PE_fillAligned ::
  "SeqAn \<Rightarrow> PairedEndRecordBuilder \<Rightarrow> BamAlignmentRecord \<Rightarrow> SequencingSimulationInfo
     \<Rightarrow> Dna5String \<Rightarrow> CharString \<Rightarrow> int
     \<Rightarrow> PairedEndRecordBuilder \<times> BamAlignmentRecord \<times> SequencingSimulationInfo \<times> Dna5String \<times> CharString" where
  "PE_fillAligned L b record infoRecord read_seq read_qual len =
     (let intSmallVar = toSmallVarInterval (pe_posMap b) (info_beginPos infoRecord)
                          (int32 (info_beginPos infoRecord + len));
          isRC = (fst intSmallVar > snd intSmallVar);
          intSmallVar = (if isRC then (snd intSmallVar, fst intSmallVar) else intSmallVar);
          intOriginal = toOriginalInterval (pe_posMap b) (fst intSmallVar) (snd intSmallVar);
          (infoRecord, read_seq, read_qual) =
             PE_flipState infoRecord read_seq read_qual (info_isForward infoRecord = isRC);
          record = (if info_isForward infoRecord = isRC
                    then record\<lparr>flag := flag record OR BAM_FLAG_RC\<rparr> else record);
          (record, editDistance, mdString) =
             alignAndSetCigar L (pe_refSeq b) record read_seq (fst intOriginal) (snd intOriginal);
          b = b\<lparr>pe_buffer := mdString\<rparr>;
          record = record\<lparr>rID := pe_rID b, beginPos := fst intOriginal,
                          seq := read_seq, qual := read_qual\<rparr>;
          (infoRecord, read_seq, read_qual) =
             PE_flipState infoRecord read_seq read_qual (info_isForward infoRecord = isRC)
      in (b, PE_fillTags b record infoRecord editDistance (pe_buffer b),
          infoRecord, read_seq, read_qual))"

text \<open>
  The block "Complete flags and tLen" of \<^verbatim>\<open>build\<close>, from the line that tests
  \<^verbatim>\<open>!unmappedL && !unmappedR\<close> to the end of the method, on the two records.
\<close>

definition PE_completeMates ::
  "SeqAn \<Rightarrow> bool \<Rightarrow> bool \<Rightarrow> int \<Rightarrow> int \<Rightarrow> BamAlignmentRecord \<Rightarrow> BamAlignmentRecord
     \<Rightarrow> BamAlignmentRecord \<times> BamAlignmentRecord" where
  "PE_completeMates L unmappedL unmappedR lenL lenR recordL recordR =
     (if \<not> unmappedL \<and> \<not> unmappedR then
        (let recordL = recordL\<lparr>flag := flag recordL OR BAM_FLAG_ALL_PROPER\<rparr>;
             recordR = recordR\<lparr>flag := flag recordR OR BAM_FLAG_ALL_PROPER\<rparr>;
             tLenL = (if rID recordL = rID recordR
                      then (if beginPos recordL < beginPos recordR
                            then int32 (int32 (beginPos recordR + lenR) - beginPos recordL)
                            else int32 (int32 (beginPos recordL + lenL) - beginPos recordR))
                      else INVALID_LEN L);
             tLenR = (if rID recordL = rID recordR then int32 (- tLenL) else INVALID_LEN L);
             recordL = recordL\<lparr>tLen := tLenL\<rparr>;
             recordR = recordR\<lparr>tLen := tLenR\<rparr>;
             recordL = recordL\<lparr>rNextId := rID recordR, pNext := beginPos recordR\<rparr>;
             recordR = recordR\<lparr>rNextId := rID recordL, pNext := beginPos recordL\<rparr>;
             recordR = (if hasFlagRC recordL
                        then recordR\<lparr>flag := flag recordR OR BAM_FLAG_NEXT_RC\<rparr> else recordR);
             recordL = (if hasFlagRC recordR
                        then recordL\<lparr>flag := flag recordL OR BAM_FLAG_NEXT_RC\<rparr> else recordL)
         in (recordL, recordR))
      else if \<not> unmappedL \<and> unmappedR then
        (let recordR = recordR\<lparr>rID := rID recordL, beginPos := beginPos recordL\<rparr>;
             recordR = recordR\<lparr>flag := flag recordR OR BAM_FLAG_UNMAPPED\<rparr>;
             recordL = recordL\<lparr>flag := flag recordL OR BAM_FLAG_NEXT_UNMAPPED\<rparr>;
             recordL = recordL\<lparr>tLen := INVALID_LEN L\<rparr>;
             recordR = recordR\<lparr>tLen := INVALID_LEN L\<rparr>
         in (recordL, recordR))
      else if unmappedL \<and> \<not> unmappedR then
        (let recordL = recordL\<lparr>rID := rID recordR, beginPos := beginPos recordR\<rparr>;
             recordL = recordL\<lparr>flag := flag recordL OR BAM_FLAG_UNMAPPED\<rparr>;
             recordR = recordR\<lparr>flag := flag recordR OR BAM_FLAG_NEXT_UNMAPPED\<rparr>;
             recordL = recordL\<lparr>tLen := INVALID_LEN L\<rparr>;
             recordR = recordR\<lparr>tLen := INVALID_LEN L\<rparr>
         in (recordL, recordR))
      else if unmappedL \<and> unmappedR then
        (let recordL = recordL\<lparr>flag := flag recordL OR BAM_FLAG_UNMAPPED\<rparr>;
             recordR = recordR\<lparr>flag := flag recordR OR BAM_FLAG_NEXT_UNMAPPED\<rparr>;
             recordL = recordL\<lparr>flag := flag recordL OR BAM_FLAG_UNMAPPED\<rparr>;
             recordR = recordR\<lparr>flag := flag recordR OR BAM_FLAG_NEXT_UNMAPPED\<rparr>
         in (recordL, recordR))
      else (recordL, recordR))"

definition PE_build ::
  "SeqAn \<Rightarrow> PairedEndRecordBuilder \<Rightarrow> BamAlignmentRecord \<Rightarrow> BamAlignmentRecord
     \<Rightarrow> PairedEndRecordBuilder \<times> BamAlignmentRecord \<times> BamAlignmentRecord" where
  "PE_build L b recordL recordR =
     (let (b, recordL, recordR) = PE_initialize L b recordL recordR;
          lenL = getLengthInRef (info_cigar (pe_infoL b));
          lenR = getLengthInRef (info_cigar (pe_infoR b));
          owbL = overlapsWithBreakpoint (pe_posMap b) (info_beginPos (pe_infoL b))
                   (int32 (info_beginPos (pe_infoL b) + lenL));
          owbR = overlapsWithBreakpoint (pe_posMap b) (info_beginPos (pe_infoR b))
                   (int32 (info_beginPos (pe_infoR b) + lenR));
          unmappedL = (if owbL then True
                       else kind (getGenomicInterval (pe_posMap b) (info_beginPos (pe_infoL b))) = INSERTED);
          unmappedR = (if owbR then True
                       else kind (getGenomicInterval (pe_posMap b) (info_beginPos (pe_infoR b))) = INSERTED);
          (b, recordL) =
             (if unmappedL
              then (b, PE_fillUnaligned L b recordL (pe_infoL b) (pe_seqL b) (pe_qualL b) owbL)
              else (case PE_fillAligned L b recordL (pe_infoL b) (pe_seqL b) (pe_qualL b) lenL of
                      (b, record, infoRecord, read_seq, read_qual) \<Rightarrow>
                        (b\<lparr>pe_infoL := infoRecord, pe_seqL := read_seq, pe_qualL := read_qual\<rparr>,
                         record)));
          (b, recordR) =
             (if unmappedR
              then (b, PE_fillUnaligned L b recordR (pe_infoR b) (pe_seqR b) (pe_qualR b) owbR)
              else (case PE_fillAligned L b recordR (pe_infoR b) (pe_seqR b) (pe_qualR b) lenR of
                      (b, record, infoRecord, read_seq, read_qual) \<Rightarrow>
                        (b\<lparr>pe_infoR := infoRecord, pe_seqR := read_seq, pe_qualR := read_qual\<rparr>,
                         record)));
          recordL = recordL\<lparr>flag := flag recordL OR (BAM_FLAG_FIRST OR BAM_FLAG_MULTIPLE)\<rparr>;
          recordR = recordR\<lparr>flag := flag recordR OR (BAM_FLAG_LAST OR BAM_FLAG_MULTIPLE)\<rparr>;
          (recordL, recordR) = PE_completeMates L unmappedL unmappedR lenL lenR recordL recordR
      in (b, recordL, recordR))"

subsection \<open>ReadSimulatorThread: read ids and query names\<close>

text \<open>The two members of \<^verbatim>\<open>options->seqOptions\<close> that \<^verbatim>\<open>_setId\<close> reads.\<close>

record SequencingOptions =
  readNamePrefix :: CharString
  embedReadInfo :: bool

text \<open>
  \<^verbatim>\<open>_setId\<close>, returning the string assigned to \<^verbatim>\<open>str\<close>. \<^verbatim>\<open>info.serialize\<close> is
  declared in another header of the application; the text it writes is the parameter
  \<open>serialize\<close>.
\<close>

definition setId ::
  "SequencingOptions \<Rightarrow> (SequencingSimulationInfo \<Rightarrow> string) \<Rightarrow> int \<Rightarrow> int
     \<Rightarrow> SequencingSimulationInfo \<Rightarrow> bool \<Rightarrow> CharString" where
  "setId opts serialize fragId num info forceNoEmbed =
     (let ss = readNamePrefix opts;
          ss = (if num = 0 \<or> forceNoEmbed then ss @ show_int (int32 (fragId + 1))
                else if num = 1 then ss @ show_int (int32 (fragId + 1)) @ ''/1''
                else ss @ show_int (int32 (fragId + 1)) @ ''/2'');
          ss = (if embedReadInfo opts \<and> \<not> forceNoEmbed then ss @ '' '' @ serialize info else ss)
      in ss)"

text \<open>
  The block \<^verbatim>\<open>if (buildAlignments)\<close> of \<^verbatim>\<open>_simulateSingleEnd\<close> for one fragment: the
  builder is made from the caller's buffers and the fragment id \<^verbatim>\<open>fragmentIds[i]\<close> (its
  \<open>fID\<close>), the record is built and its query name set from the same fragment id and the
  info as \<^verbatim>\<open>build\<close> left it (\<open>builder'\<close> is the caller's state after \<^verbatim>\<open>build\<close>).
\<close>

definition simulateSingleEnd_alignment ::
  "SequencingOptions \<Rightarrow> (SequencingSimulationInfo \<Rightarrow> string) \<Rightarrow> SeqAn \<Rightarrow> SingleEndRecordBuilder
     \<Rightarrow> BamAlignmentRecord \<Rightarrow> SingleEndRecordBuilder \<times> BamAlignmentRecord" where
  "simulateSingleEnd_alignment opts serialize L builder record =
     (let (builder', record) = SE_build L builder record;
          record = record\<lparr>qName := setId opts serialize (se_fID builder) 1 (se_info builder') True\<rparr>
      in (builder', record))"

text \<open>The block \<^verbatim>\<open>if (buildAlignments)\<close> of \<^verbatim>\<open>_simulatePairedEnd\<close> for one fragment.\<close>

definition simulatePairedEnd_alignments ::
  "SequencingOptions \<Rightarrow> (SequencingSimulationInfo \<Rightarrow> string) \<Rightarrow> SeqAn \<Rightarrow> PairedEndRecordBuilder
     \<Rightarrow> BamAlignmentRecord \<Rightarrow> BamAlignmentRecord
     \<Rightarrow> PairedEndRecordBuilder \<times> BamAlignmentRecord \<times> BamAlignmentRecord" where
  "simulatePairedEnd_alignments opts serialize L builder recordL recordR =
     (let (builder', recordL, recordR) = PE_build L builder recordL recordR;
          recordL = recordL\<lparr>qName := setId opts serialize (pe_fID builder) 1 (pe_infoL builder') True\<rparr>;
          recordR = recordR\<lparr>qName := setId opts serialize (pe_fID builder) 2 (pe_infoR builder') True\<rparr>
      in (builder', recordL, recordR))"

subsection \<open>MasonSimulatorApp: distributing the fragment ids\<close>

text \<open>
  \<^verbatim>\<open>ContigPicker\<close> is declared in another header of the application. Its \<^verbatim>\<open>pick\<close>
  draws from the random number generator and returns a pair (contig, haplotype): the
  generator's state is \<open>rng\<close> and the drawing function is the parameter \<open>draw\<close>.
\<close>

record 'r ContigPicker =
  numHaplotypes :: int
  rng :: 'r
  draw :: "'r \<Rightarrow> (int \<times> int) \<times> 'r"

definition pick :: "'r ContigPicker \<Rightarrow> (int \<times> int) \<times> 'r ContigPicker" where
  "pick cp = (case draw cp (rng cp) of (p, r) \<Rightarrow> (p, cp\<lparr>rng := r\<rparr>))"

text \<open>
  Modelled from the spec: \<^verbatim>\<open>ContigPicker::toId\<close>, declared in another header:
  "\<open>to_id((contig, hap))\<close> linearizes into \<open>contig * num_haplotypes + hap\<close>".
\<close>

definition toId :: "'r ContigPicker \<Rightarrow> int \<times> int \<Rightarrow> int" where
  "toId cp p = int32 (int32 (fst p * numHaplotypes cp) + snd p)"

text \<open>
  The loop of step (1) of \<^verbatim>\<open>_simulateReads\<close>. The files of \<^verbatim>\<open>fragmentIdSplitter\<close> are
  the lists of the integers written to them. Indexing \<^verbatim>\<open>files\<close> outside its bounds has
  no defined behaviour in the source; the model stops with \<open>None\<close> there. The counter stays
  below \<^verbatim>\<open>numFragments\<close>, so its increment does not wrap around. (The result of
  \<^verbatim>\<open>fwrite\<close> is not looked at; the model is the run in which every write succeeds.)
\<close>

function distributeLoop ::
  "int \<Rightarrow> int \<Rightarrow> 'r ContigPicker \<Rightarrow> int list list \<Rightarrow> ('r ContigPicker \<times> int list list) option" where
  "distributeLoop numFragments i cp files =
     (if i < numFragments then
        (case pick cp of (p, cp') \<Rightarrow>
           (if 0 \<le> toId cp' p \<and> toId cp' p < int (length files)
            then distributeLoop numFragments (i + 1) cp'
                   (files[nat (toId cp' p) := files ! nat (toId cp' p) @ [i]])
            else None))
      else Some (cp, files))"
  by pat_completeness auto
termination
  by (relation "measure (\<lambda>(numFragments, i, cp, files). nat (numFragments - i))") auto

declare distributeLoop.simps [simp del]

text \<open>
  Step (1) of \<^verbatim>\<open>_simulateReads\<close>: the loop from 0, then \<^verbatim>\<open>fragmentIdSplitter.reset()\<close>,
  which rewinds the files and leaves their contents.
\<close>

definition distribute ::
  "int \<Rightarrow> 'r ContigPicker \<Rightarrow> int list list \<Rightarrow> ('r ContigPicker \<times> int list list) option" where
  "distribute numFragments cp files = distributeLoop numFragments 0 cp files"

subsection \<open>The conditions the specification names\<close>

text \<open>
  The simulated interval \<open>[begin_pos, begin_pos + reference_length(cigar))\<close> of a read
  overlaps a breakpoint of the position map.
\<close>

definition crossesBreakpoint :: "PositionMap \<Rightarrow> SequencingSimulationInfo \<Rightarrow> bool" where
  "crossesBreakpoint pm info =
     overlapsWithBreakpoint pm (info_beginPos info)
       (int32 (info_beginPos info + getLengthInRef (info_cigar info)))"

text \<open>The genomic interval covering \<open>begin_pos\<close> has kind INSERTED.\<close>

definition inInsertedRegion :: "PositionMap \<Rightarrow> SequencingSimulationInfo \<Rightarrow> bool" where
  "inInsertedRegion pm info = (kind (getGenomicInterval pm (info_beginPos info)) = INSERTED)"

text \<open>
  The orientation-reversed bit: the translation of the simulated interval to small-variant
  coordinates returns \<open>(a, b)\<close> with \<open>a > b\<close>.
\<close>

definition orientationReversed :: "PositionMap \<Rightarrow> SequencingSimulationInfo \<Rightarrow> bool" where
  "orientationReversed pm info =
     (fst (toSmallVarInterval pm (info_beginPos info)
             (int32 (info_beginPos info + getLengthInRef (info_cigar info))))
      > snd (toSmallVarInterval pm (info_beginPos info)
               (int32 (info_beginPos info + getLengthInRef (info_cigar info)))))"

definition needsFlip :: "PositionMap \<Rightarrow> SequencingSimulationInfo \<Rightarrow> bool" where
  "needsFlip pm info = (info_isForward info = orientationReversed pm info)"

text \<open>
  The interval on the original reference: the small-variant interval, its ends swapped
  when the orientation is reversed, translated by \<^verbatim>\<open>toOriginalInterval\<close>.
\<close>

definition originalInterval :: "PositionMap \<Rightarrow> SequencingSimulationInfo \<Rightarrow> int \<times> int" where
  "originalInterval pm info =
     (let sv = toSmallVarInterval pm (info_beginPos info)
                 (int32 (info_beginPos info + getLengthInRef (info_cigar info)))
      in if fst sv > snd sv then toOriginalInterval pm (snd sv) (fst sv)
         else toOriginalInterval pm (fst sv) (snd sv))"

subsection \<open>Example inputs\<close>

text \<open>
  Concrete inputs at which the theorems below are instantiated. The example library has the
  sentinels \<open>-1\<close>, \<open>-1\<close> and \<open>0\<close> and an alignment routine that places the two
  sequences side by side without gaps and counts the differing columns.
\<close>

definition example_SeqAn :: SeqAn where
  "example_SeqAn =
     \<lparr>INVALID_REFID = - 1, INVALID_POS = - 1, INVALID_LEN = 0,
      globalAlignment = (\<lambda>contig read_seq sScheme lDiag uDiag.
         (- 1000 * int (length (filter (\<lambda>p. fst p \<noteq> snd p) (zip contig read_seq))),
          map Some contig, map Some read_seq)),
      getCigarString = (\<lambda>gaps1 gaps2 splitThreshold. [CigarElement (CHR ''M'') (length gaps1)])\<rparr>"

text \<open>
  A haplotype whose positions 8 to 11 are an insertion: the intervals \<open>[0, 8)\<close> and
  \<open>[12, \<dots>)\<close> come from the reference, with breakpoints at 8 and 12.
\<close>

definition example_posMap :: PositionMap where
  "example_posMap =
     \<lparr>overlapsWithBreakpoint = (\<lambda>b e. (b < 8 \<and> 8 < e) \<or> (b < 12 \<and> 12 < e)),
      getGenomicInterval = (\<lambda>p. \<lparr>kind = (if 8 \<le> p \<and> p < 12 then INSERTED else NORMAL)\<rparr>),
      toSmallVarInterval = (\<lambda>b e. if 12 \<le> b then (b - 4, e - 4) else (b, e)),
      toOriginalInterval = (\<lambda>a b. (a, b))\<rparr>"

text \<open>A haplotype that is the reference itself.\<close>

definition example_posMap_plain :: PositionMap where
  "example_posMap_plain =
     \<lparr>overlapsWithBreakpoint = (\<lambda>b e. False),
      getGenomicInterval = (\<lambda>p. \<lparr>kind = NORMAL\<rparr>),
      toSmallVarInterval = (\<lambda>b e. (b, e)),
      toOriginalInterval = (\<lambda>a b. (a, b))\<rparr>"

text \<open>A haplotype that is the reference of length 16, inverted.\<close>

definition example_posMap_inverted :: PositionMap where
  "example_posMap_inverted =
     \<lparr>overlapsWithBreakpoint = (\<lambda>b e. False),
      getGenomicInterval = (\<lambda>p. \<lparr>kind = NORMAL\<rparr>),
      toSmallVarInterval = (\<lambda>b e. (16 - b, 16 - e)),
      toOriginalInterval = (\<lambda>a b. (a, b))\<rparr>"

definition example_refSeq :: Dna5String where
  "example_refSeq =
     [Dna5_A, Dna5_A, Dna5_A, Dna5_A, Dna5_C, Dna5_C, Dna5_C, Dna5_C,
      Dna5_G, Dna5_G, Dna5_G, Dna5_G, Dna5_T, Dna5_T, Dna5_T, Dna5_T]"

definition example_info :: "int \<Rightarrow> bool \<Rightarrow> CigarElement list \<Rightarrow> SequencingSimulationInfo" where
  "example_info pos forward cig =
     \<lparr>info_rID = 7, info_hID = 7, info_beginPos = pos, info_isForward = forward,
      info_cigar = cig\<rparr>"

text \<open>A read of four bases without insertions or deletions, at position \<open>pos\<close>.\<close>

definition example_SE :: "PositionMap \<Rightarrow> int \<Rightarrow> bool \<Rightarrow> SingleEndRecordBuilder" where
  "example_SE pm pos forward =
     \<lparr>se_info = example_info pos forward [CigarElement (CHR ''M'') 4],
      se_seq = [Dna5_A, Dna5_A, Dna5_C, Dna5_G], se_buffer = ''old'', se_qual = ''IJKL'',
      se_posMap = pm, se_refName = ''chr1'', se_refSeq = example_refSeq,
      se_rID = 0, se_hID = 1, se_fID = 0\<rparr>"

text \<open>Two mates of four bases each, with their positions and CIGAR strings.\<close>

definition example_PE ::
  "PositionMap \<Rightarrow> int \<Rightarrow> CigarElement list \<Rightarrow> int \<Rightarrow> CigarElement list \<Rightarrow> PairedEndRecordBuilder" where
  "example_PE pm posL cigL posR cigR =
     \<lparr>pe_infoL = example_info posL True cigL, pe_infoR = example_info posR False cigR,
      pe_seqL = [Dna5_A, Dna5_A, Dna5_C, Dna5_G], pe_seqR = [Dna5_T, Dna5_T, Dna5_G, Dna5_N],
      pe_buffer = ''old'', pe_qualL = ''IJKL'', pe_qualR = ''MNOP'',
      pe_posMap = pm, pe_refName = ''chr1'', pe_refSeq = example_refSeq,
      pe_rID = 0, pe_hID = 1, pe_fID = 0\<rparr>"

definition cigar_4M :: "CigarElement list" where
  "cigar_4M = [CigarElement (CHR ''M'') 4]"

definition example_record :: BamAlignmentRecord where
  "example_record =
     \<lparr>qName = ''stale'', flag = 0xFFF, rID = 5, beginPos = 5, cigar = [], rNextId = 5, pNext = 5,
      tLen = 5, seq = [], qual = [], tags = [(''XX'', TagInt 1)]\<rparr>"

definition example_options :: "bool \<Rightarrow> SequencingOptions" where
  "example_options e = \<lparr>readNamePrefix = ''read'', embedReadInfo = e\<rparr>"

definition example_serialize :: "SequencingSimulationInfo \<Rightarrow> string" where
  "example_serialize info = ''BEGIN_POS='' @ show_int (info_beginPos info)"

text \<open>A picker over two contigs with one haplotype that alternates between the contigs.\<close>

definition example_picker :: "nat ContigPicker" where
  "example_picker =
     \<lparr>numHaplotypes = 1, rng = 0, draw = (\<lambda>r. ((int (r mod 2), 0), Suc r))\<rparr>"

section \<open>Properties\<close>

subsection \<open>MD strings\<close>

lemma md_op_cases: "md_op x1 g2 = CHR ''D'' \<or> md_op x1 g2 = CHR ''M'' \<or> md_op x1 g2 = CHR ''R''"
  by (simp add: md_op_def split: option.split)

text \<open>
  The two guarded appends of \<open>^\<close> and \<open>0\<close> are dead code: when they are reached,
  \<open>lastOp\<close> already equals \<open>op\<close>. The body is the same function as the one that has
  neither.
\<close>

lemma getMDString2_body_simplified:
  "getMDString2_body (md, lastOp, numOps) x1 g2 =
     (let op = md_op x1 g2;
          md1 = (if lastOp \<noteq> op \<and> lastOp = CHR ''M'' then md @ show_unsigned (nat numOps) else md)
      in ((if op \<noteq> CHR ''M'' then md1 @ [Dna5_to_char x1] else md1),
          op,
          ((if lastOp \<noteq> op then 0 else numOps) + 1) mod 4294967296))"
  using md_op_cases [of x1 g2] by (auto simp add: getMDString2_body_def Let_def)

text \<open>
  C7 (fails on the code). The claim: \<^verbatim>\<open>getMDString2\<close> emits \<open>^\<close> on the first \<open>D\<close> of
  each deletion run and a literal \<open>0\<close> on a transition from \<open>D\<close> to \<open>R\<close>. The code
  emits neither: for the reference row \<open>A C\<close> against the read row \<open>A -\<close> it yields
  \<open>1C\<close> where the claim gives \<open>1^C\<close>, and for \<open>A C G\<close> against \<open>A - T\<close> it yields
  \<open>1CG\<close> where the claim gives \<open>1^C0G\<close>.
\<close>

theorem getMDString2_omits_caret_and_zero:
  "getMDString2 [Some Dna5_A, Some Dna5_C] [Some Dna5_A, None] = ''1C''
   \<and> getMDString2 [Some Dna5_A, Some Dna5_C, Some Dna5_G] [Some Dna5_A, None, Some Dna5_T] = ''1CG''"
  by (simp add: getMDString2_def getMDString2_body_def md_op_def Let_def
      show_unsigned.simps digit_char_def)

subsection \<open>Auxiliary facts\<close>

lemma int32_id: "- 2147483648 \<le> x \<Longrightarrow> x < 2147483648 \<Longrightarrow> int32 x = x"
  by (simp add: int32_def)

lemma complement_involution [simp]: "complement (complement x) = x"
  by (cases x) simp_all

lemma reverseComplement_involution [simp]: "reverseComplement (reverseComplement s) = s"
  by (simp add: reverseComplement_def rev_map o_def)

lemma alignAndSetCigar_eq:
  "alignAndSetCigar L refSeq record s a e =
     (record\<lparr>cigar := getCigarString L (fst (snd (realignment L refSeq s a e)))
                          (snd (snd (realignment L refSeq s a e))) 2147483647\<rparr>,
      int32 (fst (realignment L refSeq s a e) sdiv (- 1000)),
      getMDString2 (fst (snd (realignment L refSeq s a e))) (snd (snd (realignment L refSeq s a e))))"
  by (simp add: alignAndSetCigar_def Let_def split_def)

lemma SE_initialize_eq:
  "SE_initialize L b record =
     (b\<lparr>se_info := (se_info b)\<lparr>info_rID := se_rID b, info_hID := se_hID b\<rparr>\<rparr>,
      \<lparr>qName = [], flag = 0, rID = INVALID_REFID L, beginPos = INVALID_POS L, cigar = [],
       rNextId = INVALID_REFID L, pNext = INVALID_POS L, tLen = INVALID_LEN L,
       seq = [], qual = [], tags = []\<rparr>)"
  by (simp add: SE_initialize_def clear_record_def Let_def)

lemma SE_fillAligned_eq:
  "SE_fillAligned L b record (getLengthInRef (info_cigar (se_info b))) =
     (let flip = needsFlip (se_posMap b) (se_info b);
          fseq = (if flip then reverseComplement (se_seq b) else se_seq b);
          fqual = (if flip then rev (se_qual b) else se_qual b);
          orig = originalInterval (se_posMap b) (se_info b);
          ga = realignment L (se_refSeq b) fseq (fst orig) (snd orig);
          md = getMDString2 (fst (snd ga)) (snd (snd ga))
      in (b\<lparr>se_buffer := md\<rparr>,
          record\<lparr>flag := (if flip then flag record OR BAM_FLAG_RC else flag record),
                 rID := se_rID b, beginPos := fst orig,
                 cigar := getCigarString L (fst (snd ga)) (snd (snd ga)) 2147483647,
                 seq := fseq, qual := fqual,
                 tags := setTagValue (setTagValue (setTagValue (setTagValue (setTagValue (setTagValue (tags record)
                   ''NM'' (TagInt (int32 (fst ga sdiv (- 1000)))))
                   ''MD'' (TagString md))
                   ''oR'' (TagString (se_refName b)))
                   ''oH'' (TagInt (int32 (se_hID b + 1))))
                   ''oP'' (TagInt (info_beginPos (se_info b))))
                   ''oS'' (TagChar (if info_isForward (se_info b) then CHR ''F'' else CHR ''R''))\<rparr>))"
proof (cases "orientationReversed (se_posMap b) (se_info b)")
  case True
  then show ?thesis
    by (cases "info_isForward (se_info b)")
      (simp_all add: SE_fillAligned_def SE_flipState_def SE_fillTags_def alignAndSetCigar_eq
        needsFlip_def orientationReversed_def originalInterval_def Let_def)
next
  case False
  then show ?thesis
    by (cases "info_isForward (se_info b)")
      (simp_all add: SE_fillAligned_def SE_flipState_def SE_fillTags_def alignAndSetCigar_eq
        needsFlip_def orientationReversed_def originalInterval_def Let_def)
qed


lemma SE_build_unmapped_eq:
  assumes "crossesBreakpoint (se_posMap b) (se_info b) \<or> inInsertedRegion (se_posMap b) (se_info b)"
  shows "SE_build L b record =
     (b\<lparr>se_info := (se_info b)\<lparr>info_rID := se_rID b, info_hID := se_hID b\<rparr>\<rparr>,
      \<lparr>qName = [], flag = BAM_FLAG_UNMAPPED, rID = INVALID_REFID L, beginPos = INVALID_POS L,
       cigar = [], rNextId = INVALID_REFID L, pNext = INVALID_POS L, tLen = INVALID_LEN L,
       seq = se_seq b, qual = se_qual b,
       tags = [(''uR'', TagChar (if crossesBreakpoint (se_posMap b) (se_info b) then CHR ''B'' else CHR ''I'')),
               (''oR'', TagString (se_refName b)),
               (''oP'', TagInt (info_beginPos (se_info b))),
               (''oH'', TagInt (int32 (se_hID b + 1))),
               (''oS'', TagChar (if info_isForward (se_info b) then CHR ''F'' else CHR ''R''))]\<rparr>)"
proof (cases "crossesBreakpoint (se_posMap b) (se_info b)")
  case True
  then show ?thesis
    by (simp add: SE_build_def SE_initialize_eq SE_fillUnaligned_def crossesBreakpoint_def Let_def)
next
  case False
  with assms have "inInsertedRegion (se_posMap b) (se_info b)" by simp
  with False show ?thesis
    by (simp add: SE_build_def SE_initialize_eq SE_fillUnaligned_def crossesBreakpoint_def
        inInsertedRegion_def Let_def)
qed

lemma SE_build_mapped_eq:
  assumes "\<not> crossesBreakpoint (se_posMap b) (se_info b)"
    and "\<not> inInsertedRegion (se_posMap b) (se_info b)"
  shows "SE_build L b record =
     (let flip = needsFlip (se_posMap b) (se_info b);
          fseq = (if flip then reverseComplement (se_seq b) else se_seq b);
          fqual = (if flip then rev (se_qual b) else se_qual b);
          orig = originalInterval (se_posMap b) (se_info b);
          ga = realignment L (se_refSeq b) fseq (fst orig) (snd orig);
          md = getMDString2 (fst (snd ga)) (snd (snd ga))
      in (b\<lparr>se_info := (se_info b)\<lparr>info_rID := se_rID b, info_hID := se_hID b\<rparr>,
            se_buffer := md\<rparr>,
          \<lparr>qName = [], flag = (if flip then BAM_FLAG_RC else 0), rID = se_rID b, beginPos = fst orig,
           cigar = getCigarString L (fst (snd ga)) (snd (snd ga)) 2147483647,
           rNextId = INVALID_REFID L, pNext = INVALID_POS L, tLen = INVALID_LEN L,
           seq = fseq, qual = fqual,
           tags = [(''NM'', TagInt (int32 (fst ga sdiv (- 1000)))),
                   (''MD'', TagString md),
                   (''oR'', TagString (se_refName b)),
                   (''oH'', TagInt (int32 (se_hID b + 1))),
                   (''oP'', TagInt (info_beginPos (se_info b))),
                   (''oS'', TagChar (if info_isForward (se_info b) then CHR ''F'' else CHR ''R''))]\<rparr>))"
proof -
  let ?b = "b\<lparr>se_info := (se_info b)\<lparr>info_rID := se_rID b, info_hID := se_hID b\<rparr>\<rparr>"
  let ?r = "\<lparr>qName = [], flag = 0, rID = INVALID_REFID L, beginPos = INVALID_POS L, cigar = [],
       rNextId = INVALID_REFID L, pNext = INVALID_POS L, tLen = INVALID_LEN L,
       seq = [], qual = [], tags = []\<rparr>"
  have sel: "needsFlip (se_posMap ?b) (se_info ?b) = needsFlip (se_posMap b) (se_info b)"
    "originalInterval (se_posMap ?b) (se_info ?b) = originalInterval (se_posMap b) (se_info b)"
    by (simp_all add: needsFlip_def orientationReversed_def originalInterval_def)
  have "SE_build L b record = SE_fillAligned L ?b ?r (getLengthInRef (info_cigar (se_info ?b)))"
    using assms
    by (simp add: SE_build_def SE_initialize_eq crossesBreakpoint_def inInsertedRegion_def Let_def)
  then show ?thesis
    unfolding SE_fillAligned_eq sel
    by (cases "needsFlip (se_posMap b) (se_info b)") (simp_all add: Let_def)
qed


lemmas BAM_FLAG_defs = BAM_FLAG_MULTIPLE_def BAM_FLAG_ALL_PROPER_def BAM_FLAG_UNMAPPED_def
  BAM_FLAG_NEXT_UNMAPPED_def BAM_FLAG_RC_def BAM_FLAG_NEXT_RC_def BAM_FLAG_FIRST_def
  BAM_FLAG_LAST_def

lemma PE_initialize_eq:
  "PE_initialize L b recordL recordR =
     (b\<lparr>pe_infoL := (pe_infoL b)\<lparr>info_rID := pe_rID b, info_hID := pe_hID b\<rparr>,
        pe_infoR := (pe_infoR b)\<lparr>info_rID := pe_rID b, info_hID := pe_hID b\<rparr>\<rparr>,
      \<lparr>qName = [], flag = 0, rID = INVALID_REFID L, beginPos = INVALID_POS L, cigar = [],
       rNextId = INVALID_REFID L, pNext = INVALID_POS L, tLen = INVALID_LEN L,
       seq = [], qual = [], tags = []\<rparr>,
      \<lparr>qName = [], flag = 0, rID = INVALID_REFID L, beginPos = INVALID_POS L, cigar = [],
       rNextId = INVALID_REFID L, pNext = INVALID_POS L, tLen = INVALID_LEN L,
       seq = [], qual = [], tags = []\<rparr>)"
  by (simp add: PE_initialize_def clear_record_def Let_def)

lemma PE_fillAligned_at_length:
  "PE_fillAligned L b record infoRecord s q (getLengthInRef (info_cigar infoRecord)) =
     (let flip = needsFlip (pe_posMap b) infoRecord;
          fseq = (if flip then reverseComplement s else s);
          fqual = (if flip then rev q else q);
          orig = originalInterval (pe_posMap b) infoRecord;
          ga = realignment L (pe_refSeq b) fseq (fst orig) (snd orig);
          md = getMDString2 (fst (snd ga)) (snd (snd ga))
      in (b\<lparr>pe_buffer := md\<rparr>,
          record\<lparr>flag := (if flip then flag record OR BAM_FLAG_RC else flag record),
                 rID := pe_rID b, beginPos := fst orig,
                 cigar := getCigarString L (fst (snd ga)) (snd (snd ga)) 2147483647,
                 seq := fseq, qual := fqual,
                 tags := setTagValue (setTagValue (setTagValue (setTagValue (setTagValue (setTagValue (tags record)
                   ''NM'' (TagInt (int32 (fst ga sdiv (- 1000)))))
                   ''MD'' (TagString md))
                   ''oR'' (TagString (pe_refName b)))
                   ''oH'' (TagInt (int32 (pe_hID b + 1))))
                   ''oP'' (TagInt (info_beginPos infoRecord)))
                   ''oS'' (TagChar (if info_isForward infoRecord then CHR ''F'' else CHR ''R''))\<rparr>,
          infoRecord, s, q))"
proof (cases "orientationReversed (pe_posMap b) infoRecord")
  case True
  then show ?thesis
    by (cases "info_isForward infoRecord")
      (simp_all add: PE_fillAligned_def PE_flipState_def PE_fillTags_def alignAndSetCigar_eq
        needsFlip_def orientationReversed_def originalInterval_def Let_def)
next
  case False
  then show ?thesis
    by (cases "info_isForward infoRecord")
      (simp_all add: PE_fillAligned_def PE_flipState_def PE_fillTags_def alignAndSetCigar_eq
        needsFlip_def orientationReversed_def originalInterval_def Let_def)
qed


lemma PE_fillAligned_eq:
  assumes "len = getLengthInRef (info_cigar infoRecord)"
  shows "PE_fillAligned L b record infoRecord s q len =
     (let flip = needsFlip (pe_posMap b) infoRecord;
          fseq = (if flip then reverseComplement s else s);
          fqual = (if flip then rev q else q);
          orig = originalInterval (pe_posMap b) infoRecord;
          ga = realignment L (pe_refSeq b) fseq (fst orig) (snd orig);
          md = getMDString2 (fst (snd ga)) (snd (snd ga))
      in (b\<lparr>pe_buffer := md\<rparr>,
          record\<lparr>flag := (if flip then flag record OR BAM_FLAG_RC else flag record),
                 rID := pe_rID b, beginPos := fst orig,
                 cigar := getCigarString L (fst (snd ga)) (snd (snd ga)) 2147483647,
                 seq := fseq, qual := fqual,
                 tags := setTagValue (setTagValue (setTagValue (setTagValue (setTagValue (setTagValue (tags record)
                   ''NM'' (TagInt (int32 (fst ga sdiv (- 1000)))))
                   ''MD'' (TagString md))
                   ''oR'' (TagString (pe_refName b)))
                   ''oH'' (TagInt (int32 (pe_hID b + 1))))
                   ''oP'' (TagInt (info_beginPos infoRecord)))
                   ''oS'' (TagChar (if info_isForward infoRecord then CHR ''F'' else CHR ''R''))\<rparr>,
          infoRecord, s, q))"
  unfolding assms by (rule PE_fillAligned_at_length)

lemma PE_build_both_mapped:
  assumes "\<not> crossesBreakpoint (pe_posMap b) (pe_infoL b)"
    and "\<not> inInsertedRegion (pe_posMap b) (pe_infoL b)"
    and "\<not> crossesBreakpoint (pe_posMap b) (pe_infoR b)"
    and "\<not> inInsertedRegion (pe_posMap b) (pe_infoR b)"
  shows "PE_build L b recordL recordR =
     (let pm = pe_posMap b; iL = pe_infoL b; iR = pe_infoR b;
          flipL = needsFlip pm iL; flipR = needsFlip pm iR;
          origL = originalInterval pm iL; origR = originalInterval pm iR;
          fseqL = (if flipL then reverseComplement (pe_seqL b) else pe_seqL b);
          fqualL = (if flipL then rev (pe_qualL b) else pe_qualL b);
          fseqR = (if flipR then reverseComplement (pe_seqR b) else pe_seqR b);
          fqualR = (if flipR then rev (pe_qualR b) else pe_qualR b);
          gaL = realignment L (pe_refSeq b) fseqL (fst origL) (snd origL);
          gaR = realignment L (pe_refSeq b) fseqR (fst origR) (snd origR);
          mdL = getMDString2 (fst (snd gaL)) (snd (snd gaL));
          mdR = getMDString2 (fst (snd gaR)) (snd (snd gaR));
          lenL = getLengthInRef (info_cigar iL); lenR = getLengthInRef (info_cigar iR);
          tLenL = (if fst origL < fst origR then int32 (int32 (fst origR + lenR) - fst origL)
                   else int32 (int32 (fst origL + lenL) - fst origR))
      in (b\<lparr>pe_infoL := iL\<lparr>info_rID := pe_rID b, info_hID := pe_hID b\<rparr>,
            pe_infoR := iR\<lparr>info_rID := pe_rID b, info_hID := pe_hID b\<rparr>,
            pe_buffer := mdR\<rparr>,
          \<lparr>qName = [],
           flag = (if flipL then BAM_FLAG_RC else 0) OR BAM_FLAG_FIRST OR BAM_FLAG_MULTIPLE
                    OR BAM_FLAG_ALL_PROPER OR (if flipR then BAM_FLAG_NEXT_RC else 0),
           rID = pe_rID b, beginPos = fst origL,
           cigar = getCigarString L (fst (snd gaL)) (snd (snd gaL)) 2147483647,
           rNextId = pe_rID b, pNext = fst origR, tLen = tLenL,
           seq = fseqL, qual = fqualL,
           tags = [(''NM'', TagInt (int32 (fst gaL sdiv (- 1000)))),
                   (''MD'', TagString mdL),
                   (''oR'', TagString (pe_refName b)),
                   (''oH'', TagInt (int32 (pe_hID b + 1))),
                   (''oP'', TagInt (info_beginPos iL)),
                   (''oS'', TagChar (if info_isForward iL then CHR ''F'' else CHR ''R''))]\<rparr>,
          \<lparr>qName = [],
           flag = (if flipR then BAM_FLAG_RC else 0) OR BAM_FLAG_LAST OR BAM_FLAG_MULTIPLE
                    OR BAM_FLAG_ALL_PROPER OR (if flipL then BAM_FLAG_NEXT_RC else 0),
           rID = pe_rID b, beginPos = fst origR,
           cigar = getCigarString L (fst (snd gaR)) (snd (snd gaR)) 2147483647,
           rNextId = pe_rID b, pNext = fst origL, tLen = int32 (- tLenL),
           seq = fseqR, qual = fqualR,
           tags = [(''NM'', TagInt (int32 (fst gaR sdiv (- 1000)))),
                   (''MD'', TagString mdR),
                   (''oR'', TagString (pe_refName b)),
                   (''oH'', TagInt (int32 (pe_hID b + 1))),
                   (''oP'', TagInt (info_beginPos iR)),
                   (''oS'', TagChar (if info_isForward iR then CHR ''F'' else CHR ''R''))]\<rparr>))"
proof -
  let ?iL = "(pe_infoL b)\<lparr>info_rID := pe_rID b, info_hID := pe_hID b\<rparr>"
  let ?iR = "(pe_infoR b)\<lparr>info_rID := pe_rID b, info_hID := pe_hID b\<rparr>"
  have sel: "needsFlip pm ?iL = needsFlip pm (pe_infoL b)"
    "needsFlip pm ?iR = needsFlip pm (pe_infoR b)"
    "originalInterval pm ?iL = originalInterval pm (pe_infoL b)"
    "originalInterval pm ?iR = originalInterval pm (pe_infoR b)"
    "crossesBreakpoint pm ?iL = crossesBreakpoint pm (pe_infoL b)"
    "crossesBreakpoint pm ?iR = crossesBreakpoint pm (pe_infoR b)"
    "inInsertedRegion pm ?iL = inInsertedRegion pm (pe_infoL b)"
    "inInsertedRegion pm ?iR = inInsertedRegion pm (pe_infoR b)" for pm
    by (simp_all add: needsFlip_def orientationReversed_def originalInterval_def
        crossesBreakpoint_def inInsertedRegion_def)
  show ?thesis
    unfolding PE_build_def PE_initialize_eq
    using assms [unfolded crossesBreakpoint_def inInsertedRegion_def]
    apply (simp only: Let_def split_conv)
    apply (simp add: PE_fillAligned_eq sel Let_def)
    apply (cases "needsFlip (pe_posMap b) (pe_infoL b)"; cases "needsFlip (pe_posMap b) (pe_infoR b)")
    apply (simp_all add: PE_completeMates_def hasFlagRC_def hasFlag_def BAM_FLAG_defs Let_def sel)
    done
qed


lemma PE_build_both_unmapped:
  assumes "crossesBreakpoint (pe_posMap b) (pe_infoL b) \<or> inInsertedRegion (pe_posMap b) (pe_infoL b)"
    and "crossesBreakpoint (pe_posMap b) (pe_infoR b) \<or> inInsertedRegion (pe_posMap b) (pe_infoR b)"
  shows "PE_build L b recordL recordR =
     (b\<lparr>pe_infoL := (pe_infoL b)\<lparr>info_rID := pe_rID b, info_hID := pe_hID b\<rparr>,
        pe_infoR := (pe_infoR b)\<lparr>info_rID := pe_rID b, info_hID := pe_hID b\<rparr>\<rparr>,
      \<lparr>qName = [], flag = BAM_FLAG_UNMAPPED OR BAM_FLAG_FIRST OR BAM_FLAG_MULTIPLE,
       rID = INVALID_REFID L, beginPos = INVALID_POS L, cigar = [],
       rNextId = INVALID_REFID L, pNext = INVALID_POS L, tLen = INVALID_LEN L,
       seq = pe_seqL b, qual = pe_qualL b,
       tags = [(''uR'', TagChar (if crossesBreakpoint (pe_posMap b) (pe_infoL b) then CHR ''B'' else CHR ''I'')),
               (''oR'', TagString (pe_refName b)),
               (''oP'', TagInt (info_beginPos (pe_infoL b))),
               (''oH'', TagInt (int32 (pe_hID b + 1))),
               (''oS'', TagChar (if info_isForward (pe_infoL b) then CHR ''F'' else CHR ''R''))]\<rparr>,
      \<lparr>qName = [],
       flag = BAM_FLAG_UNMAPPED OR BAM_FLAG_LAST OR BAM_FLAG_MULTIPLE OR BAM_FLAG_NEXT_UNMAPPED,
       rID = INVALID_REFID L, beginPos = INVALID_POS L, cigar = [],
       rNextId = INVALID_REFID L, pNext = INVALID_POS L, tLen = INVALID_LEN L,
       seq = pe_seqR b, qual = pe_qualR b,
       tags = [(''uR'', TagChar (if crossesBreakpoint (pe_posMap b) (pe_infoR b) then CHR ''B'' else CHR ''I'')),
               (''oR'', TagString (pe_refName b)),
               (''oP'', TagInt (info_beginPos (pe_infoR b))),
               (''oH'', TagInt (int32 (pe_hID b + 1))),
               (''oS'', TagChar (if info_isForward (pe_infoR b) then CHR ''F'' else CHR ''R''))]\<rparr>)"
proof -
  have uL: "(if crossesBreakpoint (pe_posMap b) (pe_infoL b) then True
             else inInsertedRegion (pe_posMap b) (pe_infoL b)) = True"
    using assms(1) by auto
  have uR: "(if crossesBreakpoint (pe_posMap b) (pe_infoR b) then True
             else inInsertedRegion (pe_posMap b) (pe_infoR b)) = True"
    using assms(2) by auto
  show ?thesis
    unfolding PE_build_def PE_initialize_eq
    apply (simp only: Let_def split_conv)
    using uL [unfolded crossesBreakpoint_def inInsertedRegion_def]
      uR [unfolded crossesBreakpoint_def inInsertedRegion_def]
    apply (simp add: PE_fillUnaligned_def PE_completeMates_def BAM_FLAG_defs Let_def
        crossesBreakpoint_def)
    done
qed

lemma example_plain_mapped:
  "\<not> crossesBreakpoint (pe_posMap (example_PE example_posMap_plain pL cL pR cR))
        (pe_infoL (example_PE example_posMap_plain pL cL pR cR))"
  "\<not> inInsertedRegion (pe_posMap (example_PE example_posMap_plain pL cL pR cR))
        (pe_infoL (example_PE example_posMap_plain pL cL pR cR))"
  "\<not> crossesBreakpoint (pe_posMap (example_PE example_posMap_plain pL cL pR cR))
        (pe_infoR (example_PE example_posMap_plain pL cL pR cR))"
  "\<not> inInsertedRegion (pe_posMap (example_PE example_posMap_plain pL cL pR cR))
        (pe_infoR (example_PE example_posMap_plain pL cL pR cR))"
  by (simp_all add: example_PE_def example_posMap_plain_def crossesBreakpoint_def inInsertedRegion_def)

lemma example_cigar_lengths:
  "getLengthInRef cigar_4M = 4"
  by (simp add: cigar_4M_def getLengthInRef_def int32_def)

lemma SE_flipState_twice: "SE_flipState (SE_flipState b d) d = b"
  by (simp add: SE_flipState_def)

lemma PE_flipState_twice:
  "PE_flipState (fst (PE_flipState i s q d)) (fst (snd (PE_flipState i s q d)))
     (snd (snd (PE_flipState i s q d))) d = (i, s, q)"
  by (simp add: PE_flipState_def)

lemma PE_fillAligned_frame:
  "fst (PE_fillAligned L b record i s q len) = b\<lparr>pe_buffer := pe_buffer (fst (PE_fillAligned L b record i s q len))\<rparr>"
  "snd (snd (PE_fillAligned L b record i s q len)) = (i, s, q)"
  by (simp_all add: PE_fillAligned_def PE_flipState_def alignAndSetCigar_eq Let_def split_def)

lemma example_realignment:
  "realignment example_SeqAn example_refSeq [Dna5_A, Dna5_A, Dna5_C, Dna5_G] 2 6 =
     (- 1000, [Some Dna5_A, Some Dna5_A, Some Dna5_C, Some Dna5_C],
      [Some Dna5_A, Some Dna5_A, Some Dna5_C, Some Dna5_G])"
  by (simp add: realignment_def example_SeqAn_def example_refSeq_def infix_seq_def Let_def split_def)

lemma example_MD:
  "getMDString2 [Some Dna5_A, Some Dna5_A, Some Dna5_C, Some Dna5_C]
      [Some Dna5_A, Some Dna5_A, Some Dna5_C, Some Dna5_G] = ''3C''"
  by (simp add: getMDString2_def getMDString2_body_def md_op_def Let_def
      show_unsigned.simps digit_char_def)




lemma setId_forceNoEmbed:
  "setId opts serialize fragId num info True = readNamePrefix opts @ show_int (int32 (fragId + 1))"
  by (simp add: setId_def Let_def)

lemma show_int_1: "show_int 1 = ''1''"
  by (simp add: show_int_def show_unsigned.simps digit_char_def)

lemma sum_list_update_append:
  assumes "k < length files"
  shows "sum_list (map length (files[k := files ! k @ [x]])) = Suc (sum_list (map length files))"
  using assms
proof (induction files arbitrary: k)
  case Nil
  then show ?case by simp
next
  case (Cons f fs)
  then show ?case by (cases k) simp_all
qed

lemma count_update_append:
  assumes "k < length files"
  shows "sum_list (map (\<lambda>f. count_list f y) (files[k := files ! k @ [x]])) =
         sum_list (map (\<lambda>f. count_list f y) files) + (if x = y then 1 else 0)"
  using assms
proof (induction files arbitrary: k)
  case Nil
  then show ?case by simp
next
  case (Cons f fs)
  then show ?case by (cases k) simp_all
qed

lemma distributeLoop_spec:
  assumes "\<forall>r. 0 \<le> toId cp (fst (draw cp r)) \<and> toId cp (fst (draw cp r)) < int (length files)"
    and "i \<le> n"
  shows "\<exists>cp' files'. distributeLoop n i cp files = Some (cp', files')
     \<and> length files' = length files
     \<and> int (sum_list (map length files')) = int (sum_list (map length files)) + (n - i)
     \<and> (\<forall>y. sum_list (map (\<lambda>f. count_list f y) files') =
              sum_list (map (\<lambda>f. count_list f y) files) + (if i \<le> y \<and> y < n then 1 else 0))"
  using assms
proof (induction n i cp files rule: distributeLoop.induct)
  case (1 numFragments i cp files)
  show ?case
  proof (cases "i < numFragments")
    case False
    with 1(3) have "i = numFragments" by simp
    then show ?thesis by (simp add: distributeLoop.simps)
  next
    case True
    obtain p cp' where pk: "pick cp = (p, cp')" by (cases "pick cp")
    then have p: "p = fst (draw cp (rng cp))" and cp': "cp' = cp\<lparr>rng := snd (draw cp (rng cp))\<rparr>"
      by (simp_all add: pick_def split_def)
    have tid: "toId cp' p = toId cp p" by (simp add: toId_def cp')
    let ?k = "nat (toId cp' p)"
    have "0 \<le> toId cp p \<and> toId cp p < int (length files)"
      using 1(2) unfolding p by blast
    then have rg: "0 \<le> toId cp' p" "toId cp' p < int (length files)"
      by (simp_all add: tid)
    then have k: "?k < length files" by simp
    let ?files = "files[?k := files ! ?k @ [i]]"
    have valid': "\<forall>r. 0 \<le> toId cp' (fst (draw cp' r)) \<and> toId cp' (fst (draw cp' r)) < int (length ?files)"
      using 1(2) by (simp add: cp' toId_def)
    from True have le: "i + 1 \<le> numFragments" by simp
    from rg have rgc: "0 \<le> toId cp' p \<and> toId cp' p < int (length files)" by simp
    from "1.IH" [OF True pk [symmetric] rgc valid' le]
    obtain cp'' files'' where
      r: "distributeLoop numFragments (i + 1) cp' ?files = Some (cp'', files'')"
      and l: "length files'' = length ?files"
      and s: "int (sum_list (map length files'')) = int (sum_list (map length ?files)) + (numFragments - (i + 1))"
      and c: "\<forall>y. sum_list (map (\<lambda>f. count_list f y) files'') =
              sum_list (map (\<lambda>f. count_list f y) ?files) + (if i + 1 \<le> y \<and> y < numFragments then 1 else 0)"
      by auto
    have "distributeLoop numFragments i cp files = Some (cp'', files'')"
      using True pk rg r by (subst distributeLoop.simps) simp
    moreover have "length files'' = length files" using l by simp
    moreover have "int (sum_list (map length files'')) = int (sum_list (map length files)) + (numFragments - i)"
      using s by (simp add: sum_list_update_append [OF k])
    moreover have "\<forall>y. sum_list (map (\<lambda>f. count_list f y) files'') =
              sum_list (map (\<lambda>f. count_list f y) files) + (if i \<le> y \<and> y < numFragments then 1 else 0)"
      using c True by (auto simp add: count_update_append [OF k])
    ultimately show ?thesis by blast
  qed
qed

lemma example_picker_valid:
  "\<forall>r. 0 \<le> toId example_picker (fst (draw example_picker r))
     \<and> toId example_picker (fst (draw example_picker r)) < int 2"
proof
  fix r :: nat
  have "int32 (int (r mod 2)) = int (r mod 2)"
    by (intro int32_id) simp_all
  then show "0 \<le> toId example_picker (fst (draw example_picker r))
     \<and> toId example_picker (fst (draw example_picker r)) < int 2"
    by (simp add: toId_def example_picker_def)
qed

subsection \<open>Single-end records\<close>

text \<open>
  C4. A record built by \<^verbatim>\<open>SingleEndRecordBuilder::build\<close> has the UNMAPPED flag exactly
  when the simulated interval overlaps a breakpoint or the genomic interval at the begin
  position has kind INSERTED. In that case the reference id and the begin position are the
  invalid sentinels, the sequence and the qualities are the caller's, unflipped, and the tags
  are \<open>uR\<close> (\<open>B\<close> when the interval crosses a breakpoint, \<open>I\<close> otherwise, that is when
  it lies in an inserted region), \<open>oR\<close>, \<open>oP\<close>, \<open>oH\<close> and \<open>oS\<close>, in this order.
\<close>

theorem SE_build_unmapped_exactly_when:
  "(hasFlag BAM_FLAG_UNMAPPED (snd (SE_build L b record))
      = (crossesBreakpoint (se_posMap b) (se_info b) \<or> inInsertedRegion (se_posMap b) (se_info b)))
   \<and> (crossesBreakpoint (se_posMap b) (se_info b) \<or> inInsertedRegion (se_posMap b) (se_info b)
        \<longrightarrow> snd (SE_build L b record) =
          \<lparr>qName = [], flag = BAM_FLAG_UNMAPPED, rID = INVALID_REFID L, beginPos = INVALID_POS L,
           cigar = [], rNextId = INVALID_REFID L, pNext = INVALID_POS L, tLen = INVALID_LEN L,
           seq = se_seq b, qual = se_qual b,
           tags = [(''uR'', TagChar (if crossesBreakpoint (se_posMap b) (se_info b)
                                     then CHR ''B'' else CHR ''I'')),
                   (''oR'', TagString (se_refName b)),
                   (''oP'', TagInt (info_beginPos (se_info b))),
                   (''oH'', TagInt (int32 (se_hID b + 1))),
                   (''oS'', TagChar (if info_isForward (se_info b) then CHR ''F'' else CHR ''R''))]\<rparr>)"
proof (cases "crossesBreakpoint (se_posMap b) (se_info b) \<or> inInsertedRegion (se_posMap b) (se_info b)")
  case True
  show ?thesis
    unfolding SE_build_unmapped_eq [OF True]
    using True by (simp add: hasFlag_def)
next
  case False
  then have m: "\<not> crossesBreakpoint (se_posMap b) (se_info b)"
    "\<not> inInsertedRegion (se_posMap b) (se_info b)" by simp_all
  show ?thesis
    unfolding SE_build_mapped_eq [OF m]
    using False by (simp add: hasFlag_def Let_def BAM_FLAG_defs)
qed

theorem SE_build_unmapped_exactly_when_witness:
  "crossesBreakpoint example_posMap (se_info (example_SE example_posMap 9 True))
   \<and> hasFlag BAM_FLAG_UNMAPPED (snd (SE_build example_SeqAn (example_SE example_posMap 9 True) example_record))
   \<and> snd (SE_build example_SeqAn (example_SE example_posMap 9 True) example_record) =
        \<lparr>qName = [], flag = 4, rID = - 1, beginPos = - 1, cigar = [], rNextId = - 1, pNext = - 1,
         tLen = 0, seq = [Dna5_A, Dna5_A, Dna5_C, Dna5_G], qual = ''IJKL'',
         tags = [(''uR'', TagChar CHR ''B''), (''oR'', TagString ''chr1''), (''oP'', TagInt 9),
                 (''oH'', TagInt 2), (''oS'', TagChar CHR ''F'')]\<rparr>"
proof -
  let ?b = "example_SE example_posMap 9 True"
  have h: "crossesBreakpoint example_posMap (se_info ?b)"
    by (simp add: example_SE_def example_posMap_def example_info_def crossesBreakpoint_def
        getLengthInRef_def int32_def)
  have pm: "se_posMap ?b = example_posMap"
    by (simp add: example_SE_def)
  note T = SE_build_unmapped_exactly_when [of example_SeqAn ?b example_record, unfolded pm]
  from T h have a: "hasFlag BAM_FLAG_UNMAPPED (snd (SE_build example_SeqAn ?b example_record))"
    by blast
  from T h have "snd (SE_build example_SeqAn ?b example_record) =
          \<lparr>qName = [], flag = BAM_FLAG_UNMAPPED, rID = INVALID_REFID example_SeqAn,
           beginPos = INVALID_POS example_SeqAn,
           cigar = [], rNextId = INVALID_REFID example_SeqAn, pNext = INVALID_POS example_SeqAn,
           tLen = INVALID_LEN example_SeqAn,
           seq = se_seq ?b, qual = se_qual ?b,
           tags = [(''uR'', TagChar (if crossesBreakpoint example_posMap (se_info ?b)
                                     then CHR ''B'' else CHR ''I'')),
                   (''oR'', TagString (se_refName ?b)),
                   (''oP'', TagInt (info_beginPos (se_info ?b))),
                   (''oH'', TagInt (int32 (se_hID ?b + 1))),
                   (''oS'', TagChar (if info_isForward (se_info ?b) then CHR ''F'' else CHR ''R''))]\<rparr>"
    by blast
  then have "snd (SE_build example_SeqAn ?b example_record) =
        \<lparr>qName = [], flag = 4, rID = - 1, beginPos = - 1, cigar = [], rNextId = - 1, pNext = - 1,
         tLen = 0, seq = [Dna5_A, Dna5_A, Dna5_C, Dna5_G], qual = ''IJKL'',
         tags = [(''uR'', TagChar CHR ''B''), (''oR'', TagString ''chr1''), (''oP'', TagInt 9),
                 (''oH'', TagInt 2), (''oS'', TagChar CHR ''F'')]\<rparr>"
    using h
    by (simp add: example_SE_def example_SeqAn_def example_info_def int32_def BAM_FLAG_UNMAPPED_def)
  with h a show ?thesis by blast
qed

text \<open>
  C10. Every record built by \<^verbatim>\<open>SingleEndRecordBuilder::build\<close> has the mate fields
  \<open>rNextId\<close>, \<open>pNext\<close> and \<open>tLen\<close> at their invalid sentinels, none of the flags
  MULTIPLE, FIRST, LAST, ALL_PROPER, NEXT_RC and NEXT_UNMAPPED, and a flag word that is
  \<open>0\<close>, UNMAPPED or RC.
\<close>

theorem SE_build_single_end_fields:
  "rNextId (snd (SE_build L b record)) = INVALID_REFID L
   \<and> pNext (snd (SE_build L b record)) = INVALID_POS L
   \<and> tLen (snd (SE_build L b record)) = INVALID_LEN L
   \<and> \<not> hasFlag BAM_FLAG_MULTIPLE (snd (SE_build L b record))
   \<and> \<not> hasFlag BAM_FLAG_FIRST (snd (SE_build L b record))
   \<and> \<not> hasFlag BAM_FLAG_LAST (snd (SE_build L b record))
   \<and> \<not> hasFlag BAM_FLAG_ALL_PROPER (snd (SE_build L b record))
   \<and> \<not> hasFlag BAM_FLAG_NEXT_RC (snd (SE_build L b record))
   \<and> \<not> hasFlag BAM_FLAG_NEXT_UNMAPPED (snd (SE_build L b record))
   \<and> (flag (snd (SE_build L b record)) = 0
        \<or> flag (snd (SE_build L b record)) = BAM_FLAG_UNMAPPED
        \<or> flag (snd (SE_build L b record)) = BAM_FLAG_RC)"
proof (cases "crossesBreakpoint (se_posMap b) (se_info b) \<or> inInsertedRegion (se_posMap b) (se_info b)")
  case True
  show ?thesis
    unfolding SE_build_unmapped_eq [OF True]
    by (simp add: hasFlag_def BAM_FLAG_defs)
next
  case False
  then have m: "\<not> crossesBreakpoint (se_posMap b) (se_info b)"
    "\<not> inInsertedRegion (se_posMap b) (se_info b)" by simp_all
  show ?thesis
    unfolding SE_build_mapped_eq [OF m]
    by (simp add: hasFlag_def Let_def BAM_FLAG_defs)
qed

subsection \<open>Paired-end records\<close>

text \<open>
  C1 (fails on the code). The claim: when both mates are unmapped, both records carry
  UNMAPPED and NEXT_UNMAPPED and both template lengths are invalid. For a left mate that
  lies in an inserted region and a right mate that crosses a breakpoint, \<^verbatim>\<open>build\<close> leaves
  the left record with UNMAPPED, FIRST and MULTIPLE only: NEXT_UNMAPPED is set on the right
  record alone (lemma \<open>PE_build_both_unmapped\<close> gives the records for every such pair).
  The template lengths are invalid, as claimed.
\<close>

theorem PE_build_both_unmapped_left_lacks_next_unmapped:
  "crossesBreakpoint example_posMap (pe_infoR (example_PE example_posMap 8 cigar_4M 6 cigar_4M))
   \<and> inInsertedRegion example_posMap (pe_infoL (example_PE example_posMap 8 cigar_4M 6 cigar_4M))
   \<and> flag (fst (snd (PE_build example_SeqAn (example_PE example_posMap 8 cigar_4M 6 cigar_4M)
                       example_record example_record)))
       = BAM_FLAG_UNMAPPED OR BAM_FLAG_FIRST OR BAM_FLAG_MULTIPLE
   \<and> \<not> hasFlag BAM_FLAG_NEXT_UNMAPPED
         (fst (snd (PE_build example_SeqAn (example_PE example_posMap 8 cigar_4M 6 cigar_4M)
                      example_record example_record)))
   \<and> flag (snd (snd (PE_build example_SeqAn (example_PE example_posMap 8 cigar_4M 6 cigar_4M)
                       example_record example_record)))
       = BAM_FLAG_UNMAPPED OR BAM_FLAG_LAST OR BAM_FLAG_MULTIPLE OR BAM_FLAG_NEXT_UNMAPPED
   \<and> tLen (fst (snd (PE_build example_SeqAn (example_PE example_posMap 8 cigar_4M 6 cigar_4M)
                       example_record example_record))) = INVALID_LEN example_SeqAn
   \<and> tLen (snd (snd (PE_build example_SeqAn (example_PE example_posMap 8 cigar_4M 6 cigar_4M)
                       example_record example_record))) = INVALID_LEN example_SeqAn"
proof -
  let ?b = "example_PE example_posMap 8 cigar_4M 6 cigar_4M"
  have pm: "pe_posMap ?b = example_posMap" by (simp add: example_PE_def)
  have l: "inInsertedRegion example_posMap (pe_infoL ?b)"
    by (simp add: example_PE_def example_posMap_def example_info_def inInsertedRegion_def)
  have r: "crossesBreakpoint example_posMap (pe_infoR ?b)"
    by (simp add: example_PE_def example_posMap_def example_info_def crossesBreakpoint_def
        cigar_4M_def getLengthInRef_def int32_def)
  note E = PE_build_both_unmapped [of ?b example_SeqAn example_record example_record, unfolded pm]
  from l r show ?thesis
    by (simp add: E hasFlag_def BAM_FLAG_defs)
qed

text \<open>
  C2 (fails on the code). The claim: when both mates are mapped to the same contig, the
  template lengths are opposite, their absolute value is
  \<open>max(end_L, end_R) - min(begin_L, begin_R)\<close>, and the template length is positive on the
  upstream mate and negative on the downstream mate. For a left mate at position 8 and a
  right mate at position 2, both with CIGAR \<open>4M\<close> on a haplotype that is the reference,
  \<^verbatim>\<open>build\<close> gives the template lengths \<open>10\<close> and \<open>-10\<close>: opposite, and of the claimed
  absolute value \<open>max(12, 6) - min(8, 2)\<close>, but positive on the left mate, which is the
  downstream one, and negative on the right mate, which is the upstream one.
\<close>

theorem PE_build_template_length_sign:
  "\<not> hasFlag BAM_FLAG_UNMAPPED (fst (snd (PE_build example_SeqAn (example_PE example_posMap_plain 8 cigar_4M 2 cigar_4M) example_record example_record)))
   \<and> \<not> hasFlag BAM_FLAG_UNMAPPED (snd (snd (PE_build example_SeqAn (example_PE example_posMap_plain 8 cigar_4M 2 cigar_4M) example_record example_record)))
   \<and> rID (fst (snd (PE_build example_SeqAn (example_PE example_posMap_plain 8 cigar_4M 2 cigar_4M) example_record example_record))) = rID (snd (snd (PE_build example_SeqAn (example_PE example_posMap_plain 8 cigar_4M 2 cigar_4M) example_record example_record)))
   \<and> beginPos (fst (snd (PE_build example_SeqAn (example_PE example_posMap_plain 8 cigar_4M 2 cigar_4M) example_record example_record))) = 8
   \<and> beginPos (snd (snd (PE_build example_SeqAn (example_PE example_posMap_plain 8 cigar_4M 2 cigar_4M) example_record example_record))) = 2
   \<and> getLengthInRef (info_cigar (pe_infoL (example_PE example_posMap_plain 8 cigar_4M 2 cigar_4M))) = 4
   \<and> getLengthInRef (info_cigar (pe_infoR (example_PE example_posMap_plain 8 cigar_4M 2 cigar_4M))) = 4
   \<and> tLen (fst (snd (PE_build example_SeqAn (example_PE example_posMap_plain 8 cigar_4M 2 cigar_4M) example_record example_record))) = 10
   \<and> tLen (snd (snd (PE_build example_SeqAn (example_PE example_posMap_plain 8 cigar_4M 2 cigar_4M) example_record example_record))) = - 10"
proof -
  note E = PE_build_both_mapped [OF example_plain_mapped [of 8 cigar_4M 2 cigar_4M],
      of example_SeqAn example_record example_record]
  have l: "getLengthInRef (info_cigar (pe_infoL (example_PE example_posMap_plain 8 cigar_4M 2 cigar_4M))) = 4"
    "getLengthInRef (info_cigar (pe_infoR (example_PE example_posMap_plain 8 cigar_4M 2 cigar_4M))) = 4"
    by (simp_all add: example_PE_def example_info_def example_cigar_lengths)
  have o: "originalInterval (pe_posMap (example_PE example_posMap_plain 8 cigar_4M 2 cigar_4M))
             (pe_infoL (example_PE example_posMap_plain 8 cigar_4M 2 cigar_4M)) = (8, 12)"
    "originalInterval (pe_posMap (example_PE example_posMap_plain 8 cigar_4M 2 cigar_4M))
             (pe_infoR (example_PE example_posMap_plain 8 cigar_4M 2 cigar_4M)) = (2, 6)"
    by (simp_all add: example_PE_def example_posMap_plain_def example_info_def originalInterval_def
        example_cigar_lengths int32_def)
  have b: "beginPos (fst (snd (PE_build example_SeqAn (example_PE example_posMap_plain 8 cigar_4M 2 cigar_4M) example_record example_record))) = 8" "beginPos (snd (snd (PE_build example_SeqAn (example_PE example_posMap_plain 8 cigar_4M 2 cigar_4M) example_record example_record))) = 2"
    by (simp_all add: E Let_def o)
  have t: "tLen (fst (snd (PE_build example_SeqAn (example_PE example_posMap_plain 8 cigar_4M 2 cigar_4M) example_record example_record))) = 10" "tLen (snd (snd (PE_build example_SeqAn (example_PE example_posMap_plain 8 cigar_4M 2 cigar_4M) example_record example_record))) = - 10"
    by (simp_all add: E Let_def o l int32_def)
  have f: "\<not> hasFlag BAM_FLAG_UNMAPPED (fst (snd (PE_build example_SeqAn (example_PE example_posMap_plain 8 cigar_4M 2 cigar_4M) example_record example_record)))" "\<not> hasFlag BAM_FLAG_UNMAPPED (snd (snd (PE_build example_SeqAn (example_PE example_posMap_plain 8 cigar_4M 2 cigar_4M) example_record example_record)))"
    "rID (fst (snd (PE_build example_SeqAn (example_PE example_posMap_plain 8 cigar_4M 2 cigar_4M) example_record example_record))) = rID (snd (snd (PE_build example_SeqAn (example_PE example_posMap_plain 8 cigar_4M 2 cigar_4M) example_record example_record)))"
    by (simp_all add: E Let_def hasFlag_def BAM_FLAG_defs)
  show ?thesis
    using f b l t by blast
qed

subsection \<open>Flipping and restoring the read state\<close>

text \<open>
  C5. \<^verbatim>\<open>_flipState\<close> with a true argument reverse-complements the sequence, reverses
  the quality string and reverses the CIGAR of the info, and does nothing otherwise. In
  \<^verbatim>\<open>_fillAligned\<close> of both builders, called with the reference length of the info's CIGAR
  as in \<^verbatim>\<open>build\<close> and with a record whose RC flag is clear, the argument is
  \<open>needsFlip\<close>, that is \<open>info.isForward = orientationReversed\<close>: the record has the RC flag
  exactly when \<open>needsFlip\<close> holds, and its sequence, qualities and CIGAR are those of the
  state flipped by \<open>needsFlip\<close> and of the realignment of that sequence.
\<close>

theorem fillAligned_flip_iff:
  assumes "\<not> hasFlagRC record"
  shows
    "SE_flipState b doFlip =
       (if doFlip
        then b\<lparr>se_seq := reverseComplement (se_seq b), se_qual := rev (se_qual b),
               se_info := (se_info b)\<lparr>info_cigar := rev (info_cigar (se_info b))\<rparr>\<rparr>
        else b)
     \<and> PE_flipState i s q doFlip =
       (if doFlip then (i\<lparr>info_cigar := rev (info_cigar i)\<rparr>, reverseComplement s, rev q)
        else (i, s, q))
     \<and> hasFlagRC (snd (SE_fillAligned L b record (getLengthInRef (info_cigar (se_info b)))))
         = needsFlip (se_posMap b) (se_info b)
     \<and> seq (snd (SE_fillAligned L b record (getLengthInRef (info_cigar (se_info b)))))
         = se_seq (SE_flipState b (needsFlip (se_posMap b) (se_info b)))
     \<and> qual (snd (SE_fillAligned L b record (getLengthInRef (info_cigar (se_info b)))))
         = se_qual (SE_flipState b (needsFlip (se_posMap b) (se_info b)))
     \<and> cigar (snd (SE_fillAligned L b record (getLengthInRef (info_cigar (se_info b)))))
         = cigar (fst (alignAndSetCigar L (se_refSeq b) record
             (se_seq (SE_flipState b (needsFlip (se_posMap b) (se_info b))))
             (fst (originalInterval (se_posMap b) (se_info b)))
             (snd (originalInterval (se_posMap b) (se_info b)))))
     \<and> hasFlagRC (fst (snd (PE_fillAligned L pb record i s q (getLengthInRef (info_cigar i)))))
         = needsFlip (pe_posMap pb) i
     \<and> seq (fst (snd (PE_fillAligned L pb record i s q (getLengthInRef (info_cigar i)))))
         = fst (snd (PE_flipState i s q (needsFlip (pe_posMap pb) i)))
     \<and> qual (fst (snd (PE_fillAligned L pb record i s q (getLengthInRef (info_cigar i)))))
         = snd (snd (PE_flipState i s q (needsFlip (pe_posMap pb) i)))
     \<and> cigar (fst (snd (PE_fillAligned L pb record i s q (getLengthInRef (info_cigar i)))))
         = cigar (fst (alignAndSetCigar L (pe_refSeq pb) record
             (fst (snd (PE_flipState i s q (needsFlip (pe_posMap pb) i))))
             (fst (originalInterval (pe_posMap pb) i))
             (snd (originalInterval (pe_posMap pb) i))))"
proof -
  have rc: "flag record AND BAM_FLAG_RC \<noteq> BAM_FLAG_RC"
    using assms by (simp add: hasFlagRC_def hasFlag_def)
  have set: "(flag record OR BAM_FLAG_RC) AND BAM_FLAG_RC = BAM_FLAG_RC"
    by (simp add: bit.conj_disj_distrib2)
  show ?thesis
    using rc set
    by (simp add: SE_fillAligned_eq PE_fillAligned_at_length SE_flipState_def PE_flipState_def
        alignAndSetCigar_eq hasFlagRC_def hasFlag_def Let_def)
qed

theorem fillAligned_flip_iff_witness:
  "\<not> hasFlagRC (clear_record example_SeqAn example_record)
   \<and> needsFlip example_posMap_inverted (se_info (example_SE example_posMap_inverted 4 True))
   \<and> hasFlagRC (snd (SE_fillAligned example_SeqAn (example_SE example_posMap_inverted 4 True)
        (clear_record example_SeqAn example_record)
        (getLengthInRef (info_cigar (se_info (example_SE example_posMap_inverted 4 True))))))
   \<and> seq (snd (SE_fillAligned example_SeqAn (example_SE example_posMap_inverted 4 True)
        (clear_record example_SeqAn example_record)
        (getLengthInRef (info_cigar (se_info (example_SE example_posMap_inverted 4 True))))))
      = [Dna5_C, Dna5_G, Dna5_T, Dna5_T]
   \<and> qual (snd (SE_fillAligned example_SeqAn (example_SE example_posMap_inverted 4 True)
        (clear_record example_SeqAn example_record)
        (getLengthInRef (info_cigar (se_info (example_SE example_posMap_inverted 4 True))))))
      = ''LKJI''"
proof -
  let ?b = "example_SE example_posMap_inverted 4 True"
  let ?r = "clear_record example_SeqAn example_record"
  have h: "\<not> hasFlagRC ?r"
    by (simp add: hasFlagRC_def hasFlag_def clear_record_def BAM_FLAG_defs)
  have n: "needsFlip (se_posMap ?b) (se_info ?b)"
    by (simp add: needsFlip_def orientationReversed_def example_SE_def example_posMap_inverted_def
        example_info_def getLengthInRef_def int32_def)
  have pm: "se_posMap ?b = example_posMap_inverted" by (simp add: example_SE_def)
  note T = fillAligned_flip_iff [OF h, where b = ?b and L = example_SeqAn]
  from T n have "hasFlagRC (snd (SE_fillAligned example_SeqAn ?b ?r (getLengthInRef (info_cigar (se_info ?b)))))"
    and "seq (snd (SE_fillAligned example_SeqAn ?b ?r (getLengthInRef (info_cigar (se_info ?b)))))
         = se_seq (SE_flipState ?b True)"
    and "qual (snd (SE_fillAligned example_SeqAn ?b ?r (getLengthInRef (info_cigar (se_info ?b)))))
         = se_qual (SE_flipState ?b True)"
    by simp_all
  moreover have "se_seq (SE_flipState ?b True) = [Dna5_C, Dna5_G, Dna5_T, Dna5_T]"
    "se_qual (SE_flipState ?b True) = ''LKJI''"
    by (simp_all add: SE_flipState_def example_SE_def reverseComplement_def)
  ultimately show ?thesis
    using h n pm by simp
qed

text \<open>
  C9 (amended). After \<^verbatim>\<open>SingleEndRecordBuilder::build\<close> the caller's sequence, quality
  string and info are those at entry, except that the info's \<open>rID\<close> and \<open>hID\<close> are the
  builder's and that the scratch \<open>buffer\<close> holds the MD string when the record is aligned
  (it is unchanged when the record is unaligned); the paired-end \<^verbatim>\<open>_fillAligned\<close> returns
  the info, the sequence and the quality string it was given and changes the \<open>buffer\<close>
  only. Flipping twice is the identity, as are reverse-complementing twice and reversing
  twice.
\<close>

theorem build_restores_read_state:
  "fst (SE_build L b record) =
      b\<lparr>se_info := (se_info b)\<lparr>info_rID := se_rID b, info_hID := se_hID b\<rparr>,
        se_buffer := se_buffer (fst (SE_build L b record))\<rparr>
   \<and> se_buffer (fst (SE_build L b record)) =
      (if crossesBreakpoint (se_posMap b) (se_info b) \<or> inInsertedRegion (se_posMap b) (se_info b)
       then se_buffer b
       else getMDString2
         (fst (snd (realignment L (se_refSeq b)
            (se_seq (SE_flipState b (needsFlip (se_posMap b) (se_info b))))
            (fst (originalInterval (se_posMap b) (se_info b)))
            (snd (originalInterval (se_posMap b) (se_info b))))))
         (snd (snd (realignment L (se_refSeq b)
            (se_seq (SE_flipState b (needsFlip (se_posMap b) (se_info b))))
            (fst (originalInterval (se_posMap b) (se_info b)))
            (snd (originalInterval (se_posMap b) (se_info b)))))))
   \<and> fst (PE_fillAligned L pb record i s q len) =
      pb\<lparr>pe_buffer := pe_buffer (fst (PE_fillAligned L pb record i s q len))\<rparr>
   \<and> snd (snd (PE_fillAligned L pb record i s q len)) = (i, s, q)
   \<and> SE_flipState (SE_flipState b d) d = b
   \<and> PE_flipState (fst (PE_flipState i s q d)) (fst (snd (PE_flipState i s q d)))
        (snd (snd (PE_flipState i s q d))) d = (i, s, q)
   \<and> reverseComplement (reverseComplement s) = s
   \<and> rev (rev q) = q"
  apply (intro conjI)
  subgoal
    by (cases "crossesBreakpoint (se_posMap b) (se_info b) \<or> inInsertedRegion (se_posMap b) (se_info b)")
      (simp_all add: SE_build_unmapped_eq SE_build_mapped_eq Let_def)
  subgoal
    by (cases "crossesBreakpoint (se_posMap b) (se_info b) \<or> inInsertedRegion (se_posMap b) (se_info b)")
      (simp_all add: SE_build_unmapped_eq SE_build_mapped_eq Let_def SE_flipState_def)
  subgoal by (rule PE_fillAligned_frame)
  subgoal by (rule PE_fillAligned_frame)
  subgoal by (rule SE_flipState_twice)
  subgoal by (rule PE_flipState_twice)
  subgoal by (rule reverseComplement_involution)
  subgoal by (rule rev_rev_ident)
  done

text \<open>
  The claim as stated says that only the record and the info's \<open>rID\<close> and \<open>hID\<close> change.
  For an aligned read the caller's \<open>buffer\<close> changes too: here from \<open>old\<close> to the MD
  string \<open>3C\<close>.
\<close>

theorem build_restores_read_state_counterexample:
  "se_buffer (fst (SE_build example_SeqAn (example_SE example_posMap_plain 2 True) example_record)) = ''3C''
   \<and> se_buffer (example_SE example_posMap_plain 2 True) = ''old''
   \<and> fst (SE_build example_SeqAn (example_SE example_posMap_plain 2 True) example_record) \<noteq>
       (example_SE example_posMap_plain 2 True)
         \<lparr>se_info := (se_info (example_SE example_posMap_plain 2 True))
            \<lparr>info_rID := se_rID (example_SE example_posMap_plain 2 True),
             info_hID := se_hID (example_SE example_posMap_plain 2 True)\<rparr>\<rparr>"
proof -
  let ?b = "example_SE example_posMap_plain 2 True"
  have m: "\<not> crossesBreakpoint (se_posMap ?b) (se_info ?b)" "\<not> inInsertedRegion (se_posMap ?b) (se_info ?b)"
    by (simp_all add: example_SE_def example_posMap_plain_def crossesBreakpoint_def inInsertedRegion_def)
  have o: "originalInterval (se_posMap ?b) (se_info ?b) = (2, 6)"
    "needsFlip (se_posMap ?b) (se_info ?b) = False"
    by (simp_all add: example_SE_def example_posMap_plain_def example_info_def originalInterval_def
        needsFlip_def orientationReversed_def getLengthInRef_def int32_def)
  have f: "se_seq ?b = [Dna5_A, Dna5_A, Dna5_C, Dna5_G]" "se_refSeq ?b = example_refSeq"
    "se_buffer ?b = ''old''"
    by (simp_all add: example_SE_def)
  have b: "se_buffer (fst (SE_build example_SeqAn ?b example_record)) = ''3C''"
    unfolding SE_build_mapped_eq [OF m]
    by (simp add: Let_def o f example_realignment example_MD)
  have "se_buffer (?b\<lparr>se_info := (se_info ?b)\<lparr>info_rID := se_rID ?b, info_hID := se_hID ?b\<rparr>\<rparr>) = ''old''"
    by (simp add: f)
  with b have "fst (SE_build example_SeqAn ?b example_record) \<noteq>
       ?b\<lparr>se_info := (se_info ?b)\<lparr>info_rID := se_rID ?b, info_hID := se_hID ?b\<rparr>\<rparr>"
    by auto
  with b f show ?thesis by simp
qed

subsection \<open>Query names\<close>

text \<open>
  C3 (amended). The query name of every alignment record the worker produces, for a
  single-end read and for either mate of a pair, is the read-name prefix followed by the
  decimal fragment id plus one: it has no \<open>/1\<close> or \<open>/2\<close> suffix and does not depend on the
  embedding option or on the serialized info.
\<close>

theorem qName_has_no_suffix_and_no_info:
  "qName (snd (simulateSingleEnd_alignment opts serialize L sb record))
      = readNamePrefix opts @ show_int (int32 (se_fID sb + 1))
   \<and> qName (fst (snd (simulatePairedEnd_alignments opts serialize L pb recordL recordR)))
      = readNamePrefix opts @ show_int (int32 (pe_fID pb + 1))
   \<and> qName (snd (snd (simulatePairedEnd_alignments opts serialize L pb recordL recordR)))
      = readNamePrefix opts @ show_int (int32 (pe_fID pb + 1))"
  by (simp add: simulateSingleEnd_alignment_def simulatePairedEnd_alignments_def
      setId_forceNoEmbed Let_def split_def)

text \<open>
  The claim as stated gives the mates of a pair the names \<open>read1/1\<close> and \<open>read1/2\<close>
  (prefix \<open>read\<close>, fragment id 0); the worker names both records \<open>read1\<close>.
\<close>

theorem qName_scheme_counterexample:
  "qName (fst (snd (simulatePairedEnd_alignments (example_options True) example_serialize example_SeqAn
       (example_PE example_posMap 8 cigar_4M 6 cigar_4M) example_record example_record))) = ''read1''
   \<and> qName (snd (snd (simulatePairedEnd_alignments (example_options True) example_serialize example_SeqAn
       (example_PE example_posMap 8 cigar_4M 6 cigar_4M) example_record example_record))) = ''read1''
   \<and> readNamePrefix (example_options True)
        @ show_int (pe_fID (example_PE example_posMap 8 cigar_4M 6 cigar_4M) + 1) @ ''/1'' = ''read1/1''
   \<and> readNamePrefix (example_options True)
        @ show_int (pe_fID (example_PE example_posMap 8 cigar_4M 6 cigar_4M) + 1) @ ''/2'' = ''read1/2''
   \<and> qName (fst (snd (simulatePairedEnd_alignments (example_options True) example_serialize example_SeqAn
       (example_PE example_posMap 8 cigar_4M 6 cigar_4M) example_record example_record)))
      \<noteq> readNamePrefix (example_options True)
        @ show_int (pe_fID (example_PE example_posMap 8 cigar_4M 6 cigar_4M) + 1) @ ''/1''
   \<and> qName (snd (snd (simulatePairedEnd_alignments (example_options True) example_serialize example_SeqAn
       (example_PE example_posMap 8 cigar_4M 6 cigar_4M) example_record example_record)))
      \<noteq> readNamePrefix (example_options True)
        @ show_int (pe_fID (example_PE example_posMap 8 cigar_4M 6 cigar_4M) + 1) @ ''/2''"
  by (simp add: simulatePairedEnd_alignments_def setId_forceNoEmbed Let_def split_def
      example_options_def example_PE_def int32_def show_int_1)

subsection \<open>Realignment\<close>




subsection \<open>Distribution of the fragment ids\<close>

text \<open>
  C8. When \<^verbatim>\<open>numFragments\<close> is not negative and the picker only returns pairs whose id is
  the index of a bucket file, the distribute phase returns, and of the buckets it leaves
  (as many as before, empty at the start) every ordinal from \<open>0\<close> to \<open>numFragments - 1\<close>
  occurs exactly once over all buckets, and no other value occurs: the sizes of the buckets
  add up to \<^verbatim>\<open>numFragments\<close>.
\<close>

theorem distribute_each_ordinal_once:
  assumes "0 \<le> numFragments"
    and "\<forall>r. 0 \<le> toId cp (fst (draw cp r)) \<and> toId cp (fst (draw cp r)) < int numBuckets"
  shows "\<exists>cp' files. distribute numFragments cp (replicate numBuckets []) = Some (cp', files)
     \<and> length files = numBuckets
     \<and> int (sum_list (map length files)) = numFragments
     \<and> (\<forall>y. sum_list (map (\<lambda>f. count_list f y) files) = (if 0 \<le> y \<and> y < numFragments then 1 else 0))"
proof -
  have v: "\<forall>r. 0 \<le> toId cp (fst (draw cp r))
      \<and> toId cp (fst (draw cp r)) < int (length (replicate numBuckets ([] :: int list)))"
    using assms(2) by simp
  have z: "sum_list (map length (replicate numBuckets ([] :: int list))) = 0"
    "sum_list (map (\<lambda>f. count_list f y) (replicate numBuckets ([] :: int list))) = 0" for y
    by (induction numBuckets) simp_all
  from distributeLoop_spec [OF v assms(1), unfolded z]
  obtain cp' files where
    "distributeLoop numFragments 0 cp (replicate numBuckets []) = Some (cp', files)"
    and "length files = length (replicate numBuckets ([] :: int list))"
    and "int (sum_list (map length files)) = int 0 + (numFragments - 0)"
    and "\<forall>y. sum_list (map (\<lambda>f. count_list f y) files) =
           0 + (if 0 \<le> y \<and> y < numFragments then 1 else 0)"
    by blast
  then have "distribute numFragments cp (replicate numBuckets []) = Some (cp', files)
     \<and> length files = numBuckets
     \<and> int (sum_list (map length files)) = numFragments
     \<and> (\<forall>y. sum_list (map (\<lambda>f. count_list f y) files) = (if 0 \<le> y \<and> y < numFragments then 1 else 0))"
    unfolding distribute_def by simp
  then show ?thesis by blast
qed

theorem distribute_each_ordinal_once_witness:
  "(0::int) \<le> 5
   \<and> (\<forall>r. 0 \<le> toId example_picker (fst (draw example_picker r))
          \<and> toId example_picker (fst (draw example_picker r)) < int 2)
   \<and> (\<exists>cp' files. distribute 5 example_picker (replicate 2 []) = Some (cp', files)
        \<and> length files = 2
        \<and> int (sum_list (map length files)) = 5
        \<and> (\<forall>y. sum_list (map (\<lambda>f. count_list f y) files) = (if 0 \<le> y \<and> y < 5 then 1 else 0)))
   \<and> map_option snd (distribute 5 example_picker (replicate 2 [])) = Some [[0, 2, 4], [1, 3]]"
proof -
  have h: "(0::int) \<le> 5" by simp
  note T = distribute_each_ordinal_once [OF h example_picker_valid]
  have e: "map_option snd (distribute 5 example_picker (replicate 2 [])) = Some [[0, 2, 4], [1, 3]]"
    by code_simp
  show ?thesis
    using h example_picker_valid T e by blast
qed

end
